theory Spec2Isabelle
  imports Complex_Main "HOL-Library.Sublist"
begin

section \<open>Values and failures\<close>

text \<open>
  The adapters of \<^verbatim>\<open>ai_service.py\<close> hand decoded JSON documents to their callers as
  Python dictionaries, lists, strings and numbers. A JSON object is an association list;
  a key is looked up with \<open>map_of\<close>. Numbers are rationals, which hold every decimal
  literal of a reply exactly. A string is the list of the bytes of its UTF-8 encoding.
\<close>

datatype json =
    JNull
  | JBool bool
  | JNum rat
  | JStr string
  | JArr "json list"
  | JObj "(string \<times> json) list"

text \<open>
  Every exception class the modelled code can meet is a constructor. \<open>Exception\<close> is
  Python's generic base class, raised by the source with a formatted message only.
  \<open>JSONDecodeError\<close> is \<^verbatim>\<open>json.JSONDecodeError\<close>; its argument is the \<^verbatim>\<open>doc\<close>
  attribute, the text that failed to parse. The \<open>API...\<close> constructors are the errors of
  the vendor SDK clients, each standing for the error of its kind of whichever package
  raised it (a status error keeps the status and the body of the reply), the \<open>Requests...\<close> constructors and \<open>HTTPError\<close> those of
  the \<^verbatim>\<open>requests\<close> library. \<open>OpenAIError\<close> and \<open>GenaiValueError\<close> are what the
  constructors \<^verbatim>\<open>OpenAI(...)\<close> and \<^verbatim>\<open>genai.Client(...)\<close> raise on a credential they do
  not take (the latter is a \<^verbatim>\<open>ValueError\<close>); \<open>APIResponseError\<close> is what an SDK call
  raises on a reply of success status that it cannot turn into its response object.
\<close>

datatype error =
    Exception string
  | ValueError string
  | TypeError
  | AttributeError
  | KeyError string
  | IndexError
  | JSONDecodeError string
  | APIStatusError nat string
  | APIConnectionError
  | APITimeoutError
  | APIResponseError
  | OpenAIError
  | GenaiValueError
  | RequestsConnectionError
  | RequestsTimeout
  | RequestsJSONDecodeError string
  | HTTPError nat
  | InvalidToken

section \<open>The network and the installed libraries\<close>

text \<open>
  The three analysis operations of every adapter.
\<close>

datatype operation = Quality | Tests | Suggestions

text \<open>
  The message texts of the source are fixed templates (a persona for the system role, a
  prompt that embeds the language tag, the code and the JSON schema expected back). A
  text is kept as the template it is: the class that owns it, the operation, and what
  fills it.
\<close>

datatype template =
    Persona string operation
  | Prompt string operation string string
  | Literal string

text \<open>
  One outbound chat request, with the arguments the source passes: the URL posted to
  (for an SDK client its \<^verbatim>\<open>base_url\<close>, empty for the SDK's default), the credential, the
  model, the top-level \<^verbatim>\<open>system\<close> argument, the messages by role, the temperature, whether
  a JSON response mode is requested, \<^verbatim>\<open>max_tokens\<close>, \<^verbatim>\<open>stream\<close>, the timeout in seconds
  and extra headers. A field the source does not pass is \<open>None\<close>.
\<close>

record chat_request =
  target :: string
  bearer :: string
  model_id :: string
  system_arg :: "template option"
  messages :: "(string \<times> template) list"
  temperature :: "rat option"
  json_mode :: bool
  max_tokens :: "nat option"
  stream :: "bool option"
  timeout :: "nat option"
  extra_headers :: "(string \<times> string) list"

text \<open>
  An outbound call: a chat request, the \<^verbatim>\<open>models.list\<close> of an OpenAI client (base URL and
  credential), or a bare \<^verbatim>\<open>requests.post\<close> of a JSON body to a URL with a bearer token.
\<close>

datatype call =
    Chat chat_request
  | ModelsList string string
  | Post string string json

text \<open>
  What the network gives back to one call: an HTTP reply (status and body), or no reply.
\<close>

datatype outcome =
    Reply nat string
  | ConnectionFailed
  | TimedOut

text \<open>
  The world outside the process: the calls sent so far, and what the network will answer
  to the calls to come, in order. When the script has run out the network is unreachable.
\<close>

record world =
  sent :: "call list"
  script :: "outcome list"

definition transmit :: "call \<Rightarrow> world \<Rightarrow> outcome \<times> world" where
  "transmit c w =
     (case script w of
        [] \<Rightarrow> (ConnectionFailed, w\<lparr>sent := sent w @ [c]\<rparr>)
      | out # rest \<Rightarrow> (out, w\<lparr>sent := sent w @ [c], script := rest\<rparr>))"

text \<open>The methods of the SDK clients that the source calls.\<close>

datatype sdk_method =
    chat_completions_create
  | messages_create
  | generate_content
  | models_list

text \<open>
  What the process finds installed. The source imports each SDK inside
  \<^verbatim>\<open>try ... except ImportError\<close> and binds the name to \<^verbatim>\<open>None\<close> when the import fails;
  \<^verbatim>\<open>requests\<close> and \<^verbatim>\<open>json\<close> are imported unconditionally. \<^verbatim>\<open>json.loads\<close> and
  \<^verbatim>\<open>json.dumps\<close> are parameters: \<open>None\<close> is the \<^verbatim>\<open>JSONDecodeError\<close> of
  \<^verbatim>\<open>json.loads\<close>. \<open>environ\<close> is \<^verbatim>\<open>os.environ\<close> and \<open>str_lower\<close> is
  \<^verbatim>\<open>str.lower\<close>. The SDK packages are parameters as well: \<open>OpenAI_accepts\<close> and
  \<open>genai_accepts\<close> say which credentials the constructors \<^verbatim>\<open>OpenAI(api_key=...)\<close> and
  \<^verbatim>\<open>genai.Client(api_key=...)\<close> take without raising, and \<open>sdk_parse\<close> is what a
  client method makes of the body of a reply of success status: the content text that
  the source reads from the response object (\<^verbatim>\<open>choices[0].message.content\<close>,
  \<^verbatim>\<open>content[0].text\<close>, \<^verbatim>\<open>text\<close>), or \<open>None\<close> where the body cannot be turned into
  that object and the call raises.
\<close>

record platform =
  OpenAI_imported :: bool
  anthropic_imported :: bool
  genai_imported :: bool
  json_loads :: "string \<Rightarrow> json option"
  json_dumps :: "json \<Rightarrow> string"
  environ :: "string \<Rightarrow> string option"
  str_lower :: "string \<Rightarrow> string"
  OpenAI_accepts :: "string \<Rightarrow> bool"
  genai_accepts :: "string \<Rightarrow> bool"
  sdk_parse :: "sdk_method \<Rightarrow> string \<Rightarrow> string option"

definition loads :: "platform \<Rightarrow> string \<Rightarrow> error + json" where
  "loads P s = (case json_loads P s of None \<Rightarrow> Inl (JSONDecodeError s) | Some j \<Rightarrow> Inr j)"

text \<open>
  The clients of the \<^verbatim>\<open>openai\<close> and \<^verbatim>\<open>anthropic\<close> packages send a request again when
  no reply came (a failed connection, a timeout) and when the reply has status 408, 409,
  429 or 5xx, up to \<^verbatim>\<open>max_retries\<close> times. The source builds its clients without a
  \<^verbatim>\<open>max_retries\<close> argument, so the default of both packages applies. (A reply can also
  ask for or forbid a retry in a header; replies here have no headers.)
\<close>

fun should_retry :: "outcome \<Rightarrow> bool" where
  "should_retry (Reply status body) =
     (status = 408 \<or> status = 409 \<or> status = 429 \<or> 500 \<le> status)"
| "should_retry ConnectionFailed = True"
| "should_retry TimedOut = True"

definition DEFAULT_MAX_RETRIES :: nat where
  "DEFAULT_MAX_RETRIES = 2"

fun sdk_request :: "nat \<Rightarrow> call \<Rightarrow> world \<Rightarrow> outcome \<times> world" where
  "sdk_request 0 c w = transmit c w"
| "sdk_request (Suc remaining) c w =
     (case transmit c w of
        (out, w') \<Rightarrow> if should_retry out then sdk_request remaining c w' else (out, w'))"

text \<open>
  A call of a client method (\<^verbatim>\<open>chat.completions.create\<close>, \<^verbatim>\<open>messages.create\<close>,
  \<^verbatim>\<open>models.generate_content\<close>, \<^verbatim>\<open>models.list\<close>) by a client built with the given
  \<^verbatim>\<open>max_retries\<close>: it returns the content text of a reply with a 2xx status that it can
  parse, and raises the SDK's response, status, connection or timeout error otherwise.
\<close>

definition sdk_call ::
  "platform \<Rightarrow> nat \<Rightarrow> sdk_method \<Rightarrow> call \<Rightarrow> world \<Rightarrow> (error + string) \<times> world" where
  "sdk_call P max_retries meth c w =
     (case sdk_request max_retries c w of
        (Reply status body, w') \<Rightarrow>
          (if 200 \<le> status \<and> status < 300
           then (case sdk_parse P meth body of
                   None \<Rightarrow> Inl APIResponseError
                 | Some content \<Rightarrow> Inr content)
           else Inl (APIStatusError status body), w')
      | (ConnectionFailed, w') \<Rightarrow> (Inl APIConnectionError, w')
      | (TimedOut, w') \<Rightarrow> (Inl APITimeoutError, w'))"

text \<open>
  \<^verbatim>\<open>requests.post\<close> sends once: a reply of any status is returned as a response object
  (status and text); a failed connection or a timeout raises.
\<close>

definition requests_post :: "call \<Rightarrow> world \<Rightarrow> (error + nat \<times> string) \<times> world" where
  "requests_post c w =
     (case transmit c w of
        (Reply status body, w') \<Rightarrow> (Inr (status, body), w')
      | (ConnectionFailed, w') \<Rightarrow> (Inl RequestsConnectionError, w')
      | (TimedOut, w') \<Rightarrow> (Inl RequestsTimeout, w'))"

text \<open>\<^verbatim>\<open>response.json()\<close> and \<^verbatim>\<open>response.raise_for_status()\<close> of \<^verbatim>\<open>requests\<close>.\<close>

definition response_json :: "platform \<Rightarrow> string \<Rightarrow> error + json" where
  "response_json P body =
     (case json_loads P body of None \<Rightarrow> Inl (RequestsJSONDecodeError body) | Some j \<Rightarrow> Inr j)"

definition raise_for_status :: "nat \<Rightarrow> error + unit" where
  "raise_for_status status =
     (if 400 \<le> status \<and> status < 600 then Inl (HTTPError status) else Inr ())"

text \<open>\<^verbatim>\<open>str\<close> of a non-negative integer, as an f-string or a \<^verbatim>\<open>KeyError\<close> prints it.\<close>

fun str_nat :: "nat \<Rightarrow> string" where
  "str_nat n =
     (if n < 10 then [''0123456789'' ! n]
      else str_nat (n div 10) @ [''0123456789'' ! (n mod 10)])"

declare str_nat.simps [simp del]

text \<open>Python's subscript on a decoded document, by key and by position.\<close>

fun getitem_key :: "json \<Rightarrow> string \<Rightarrow> error + json" where
  "getitem_key (JObj kvs) k = (case map_of kvs k of None \<Rightarrow> Inl (KeyError k) | Some v \<Rightarrow> Inr v)"
| "getitem_key (JArr xs) k = Inl TypeError"
| "getitem_key (JStr s) k = Inl TypeError"
| "getitem_key j k = Inl TypeError"

fun getitem_index :: "json \<Rightarrow> nat \<Rightarrow> error + json" where
  "getitem_index (JArr xs) i = (if i < length xs then Inr (xs ! i) else Inl IndexError)"
| "getitem_index (JStr s) i = (if i < length s then Inr (JStr [s ! i]) else Inl IndexError)"
| "getitem_index (JObj kvs) i = Inl (KeyError (str_nat i))"
| "getitem_index j i = Inl TypeError"

text \<open>\<^verbatim>\<open>result['choices'][0]['message']['content']\<close>\<close>

definition choices_content :: "json \<Rightarrow> error + json" where
  "choices_content result =
     (case getitem_key result ''choices'' of
        Inl e \<Rightarrow> Inl e
      | Inr choices \<Rightarrow>
          (case getitem_index choices 0 of
             Inl e \<Rightarrow> Inl e
           | Inr choice \<Rightarrow>
               (case getitem_key choice ''message'' of
                  Inl e \<Rightarrow> Inl e
                | Inr message \<Rightarrow> getitem_key message ''content'')))"

text \<open>\<^verbatim>\<open>json.loads\<close> on a decoded value: only a string is accepted.\<close>

fun loads_value :: "platform \<Rightarrow> json \<Rightarrow> error + json" where
  "loads_value P (JStr s) = loads P s"
| "loads_value P j = Inl TypeError"

section \<open>Language detection\<close>

text \<open>
  \<^verbatim>\<open>detect_language\<close> is defined twice in the repository, in \<^verbatim>\<open>ai_service.py\<close> and in
  \<^verbatim>\<open>openai_service.py\<close>, with the same body line for line; one definition stands for
  both. \<^verbatim>\<open>str.lower\<close> is the \<open>str_lower\<close> of the platform: it follows the Unicode
  case mapping, which this theory does not fix. The other built-ins are written out:
  \<^verbatim>\<open>str.rfind\<close>, the substring test \<^verbatim>\<open>in\<close>, and \<^verbatim>\<open>os.path.splitext\<close> in its POSIX
  form (separator \<^verbatim>\<open>/\<close>, leading dots of the last component are not an extension).
  They look for ASCII characters only, which UTF-8 keeps apart from the bytes of every
  other character, so they find in the bytes what Python finds in the code points.
\<close>

primrec rfind_from :: "char \<Rightarrow> string \<Rightarrow> int \<Rightarrow> int \<Rightarrow> int" where
  "rfind_from c [] i found = found"
| "rfind_from c (x # xs) i found = rfind_from c xs (i + 1) (if x = c then i else found)"

definition rfind :: "string \<Rightarrow> char \<Rightarrow> int" where
  "rfind p c = rfind_from c p 0 (- 1)"

text \<open>
  The loop of \<^verbatim>\<open>genericpath._splitext\<close> that skips the leading dots of the file name:
  it answers whether some character at an index in \<open>[i, dot)\<close> is not a dot, which is
  when the function splits the path at \<open>dot\<close>.
\<close>

function skip_leading_dots :: "string \<Rightarrow> nat \<Rightarrow> nat \<Rightarrow> bool" where
  "skip_leading_dots p i dot =
     (if i < dot
      then (if take 1 (drop i p) \<noteq> ''.'' then True else skip_leading_dots p (Suc i) dot)
      else False)"
  by pat_completeness auto
termination
  by (relation "measure (\<lambda>(p, i, dot). dot - i)") auto

definition splitext :: "string \<Rightarrow> string \<times> string" where
  "splitext p =
     (let sepIndex = rfind p (CHR ''/'');
          dotIndex = rfind p (CHR ''.'')
      in if dotIndex > sepIndex \<and> skip_leading_dots p (nat (sepIndex + 1)) (nat dotIndex)
         then (take (nat dotIndex) p, drop (nat dotIndex) p)
         else (p, []))"

primrec str_contains :: "string \<Rightarrow> string \<Rightarrow> bool" where
  "str_contains sub [] = (sub = [])"
| "str_contains sub (c # cs) = (prefix sub (c # cs) \<or> str_contains sub cs)"

definition extension_map :: "(string \<times> string) list" where
  "extension_map =
     [(''.py'', ''python''),
      (''.js'', ''javascript''),
      (''.ts'', ''typescript''),
      (''.java'', ''java''),
      (''.cpp'', ''cpp''),
      (''.c'', ''c''),
      (''.cs'', ''csharp''),
      (''.php'', ''php''),
      (''.rb'', ''ruby''),
      (''.go'', ''go''),
      (''.rs'', ''rust''),
      (''.swift'', ''swift''),
      (''.kt'', ''kotlin''),
      (''.scala'', ''scala''),
      (''.sh'', ''bash''),
      (''.sql'', ''sql''),
      (''.html'', ''html''),
      (''.css'', ''css''),
      (''.json'', ''json''),
      (''.xml'', ''xml''),
      (''.yaml'', ''yaml''),
      (''.yml'', ''yaml'')]"

definition detect_language :: "platform \<Rightarrow> string \<Rightarrow> string \<Rightarrow> string" where
  "detect_language P filename code_content =
     (let ext = snd (splitext (str_lower P filename));
          detected_language = (case map_of extension_map ext of
                                 Some l \<Rightarrow> l
                               | None \<Rightarrow> ''text'')
      in if detected_language = ''text'' \<and> code_content \<noteq> []
         then (if str_contains ''def '' code_content \<and> str_contains ''import '' code_content
               then ''python''
               else if str_contains ''function '' code_content \<and>
                       (str_contains ''var '' code_content \<or> str_contains ''let '' code_content)
               then ''javascript''
               else if str_contains ''public class '' code_content \<and>
                       str_contains ''public static void main'' code_content
               then ''java''
               else detected_language)
         else detected_language)"

section \<open>The adapters\<close>

text \<open>
  An adapter instance is its class with the fields \<^verbatim>\<open>__init__\<close> stores: the credential
  and the model, and for the generic HTTP adapter the base URL and the extra headers. The
  \<^verbatim>\<open>client\<close> field is determined by them and is not kept: the client of the OpenAI, xAI
  and Anthropic adapters is built with the default \<^verbatim>\<open>max_retries\<close>.
\<close>

datatype adapter =
    OpenAIProvider string string
  | AnthropicProvider string string
  | GeminiProvider string string
  | PerplexityProvider string string
  | XAIProvider string string
  | HTTPProvider string string string "(string \<times> string) list"

type_synonym 'a io = "world \<Rightarrow> (error + 'a) \<times> world"

definition no_chat :: chat_request where
  "no_chat =
     \<lparr>target = [], bearer = [], model_id = [], system_arg = None, messages = [],
      temperature = None, json_mode = False, max_tokens = None, stream = None,
      timeout = None, extra_headers = []\<rparr>"

text \<open>The return statement shared by the SDK adapters: \<^verbatim>\<open>json.loads\<close> of the content text.\<close>

definition loads_content :: "platform \<Rightarrow> (error + string) \<times> world \<Rightarrow> (error + json) \<times> world" where
  "loads_content P r =
     (case r of (Inl e, w') \<Rightarrow> (Inl e, w') | (Inr content, w') \<Rightarrow> (loads P content, w'))"

subsection \<open>OpenAIProvider\<close>

definition OpenAIProvider_analyze_code_quality :: "platform \<Rightarrow> string \<Rightarrow> string \<Rightarrow> string \<Rightarrow> string \<Rightarrow> json io" where
  "OpenAIProvider_analyze_code_quality P api_key model code_content language w =
     loads_content P
       (sdk_call P DEFAULT_MAX_RETRIES chat_completions_create
          (Chat (no_chat\<lparr>target := [], bearer := api_key, model_id := model,
                   messages := [(''system'', Persona ''OpenAIProvider'' Quality),
                                (''user'', Prompt ''OpenAIProvider'' Quality language code_content)],
                   json_mode := True,
                   temperature := Some (3 / 10)\<rparr>))
          w)"

definition OpenAIProvider_generate_test_cases :: "platform \<Rightarrow> string \<Rightarrow> string \<Rightarrow> string \<Rightarrow> string \<Rightarrow> json io" where
  "OpenAIProvider_generate_test_cases P api_key model code_content language w =
     loads_content P
       (sdk_call P DEFAULT_MAX_RETRIES chat_completions_create
          (Chat (no_chat\<lparr>target := [], bearer := api_key, model_id := model,
                   messages := [(''system'', Persona ''OpenAIProvider'' Tests),
                                (''user'', Prompt ''OpenAIProvider'' Tests language code_content)],
                   json_mode := True,
                   temperature := Some (4 / 10)\<rparr>))
          w)"

definition OpenAIProvider_get_code_suggestions :: "platform \<Rightarrow> string \<Rightarrow> string \<Rightarrow> string \<Rightarrow> string \<Rightarrow> json io" where
  "OpenAIProvider_get_code_suggestions P api_key model code_content language w =
     loads_content P
       (sdk_call P DEFAULT_MAX_RETRIES chat_completions_create
          (Chat (no_chat\<lparr>target := [], bearer := api_key, model_id := model,
                   messages := [(''system'', Persona ''OpenAIProvider'' Suggestions),
                                (''user'', Prompt ''OpenAIProvider'' Suggestions language code_content)],
                   json_mode := True,
                   temperature := Some (3 / 10)\<rparr>))
          w)"

subsection \<open>AnthropicProvider\<close>

definition AnthropicProvider_analyze_code_quality :: "platform \<Rightarrow> string \<Rightarrow> string \<Rightarrow> string \<Rightarrow> string \<Rightarrow> json io" where
  "AnthropicProvider_analyze_code_quality P api_key model code_content language w =
     loads_content P
       (sdk_call P DEFAULT_MAX_RETRIES messages_create
          (Chat (no_chat\<lparr>bearer := api_key, model_id := model,
                   max_tokens := Some 4000,
                   messages := [(''user'', Prompt ''AnthropicProvider'' Quality language code_content)],
                   system_arg := Some (Persona ''AnthropicProvider'' Quality)\<rparr>))
          w)"

definition AnthropicProvider_generate_test_cases :: "platform \<Rightarrow> string \<Rightarrow> string \<Rightarrow> string \<Rightarrow> string \<Rightarrow> json io" where
  "AnthropicProvider_generate_test_cases P api_key model code_content language w =
     loads_content P
       (sdk_call P DEFAULT_MAX_RETRIES messages_create
          (Chat (no_chat\<lparr>bearer := api_key, model_id := model,
                   max_tokens := Some 4000,
                   messages := [(''user'', Prompt ''AnthropicProvider'' Tests language code_content)],
                   system_arg := Some (Persona ''AnthropicProvider'' Tests)\<rparr>))
          w)"

definition AnthropicProvider_get_code_suggestions :: "platform \<Rightarrow> string \<Rightarrow> string \<Rightarrow> string \<Rightarrow> string \<Rightarrow> json io" where
  "AnthropicProvider_get_code_suggestions P api_key model code_content language w =
     loads_content P
       (sdk_call P DEFAULT_MAX_RETRIES messages_create
          (Chat (no_chat\<lparr>bearer := api_key, model_id := model,
                   max_tokens := Some 4000,
                   messages := [(''user'', Prompt ''AnthropicProvider'' Suggestions language code_content)],
                   system_arg := Some (Persona ''AnthropicProvider'' Suggestions)\<rparr>))
          w)"

subsection \<open>GeminiProvider\<close>

text \<open>The client of the \<^verbatim>\<open>google-genai\<close> package sends once unless retry options are given.\<close>

definition GeminiProvider_analyze_code_quality :: "platform \<Rightarrow> string \<Rightarrow> string \<Rightarrow> string \<Rightarrow> string \<Rightarrow> json io" where
  "GeminiProvider_analyze_code_quality P api_key model code_content language w =
     loads_content P
       (sdk_call P 0 generate_content
          (Chat (no_chat\<lparr>bearer := api_key, model_id := model,
                   messages := [(''user'', Prompt ''GeminiProvider'' Quality language code_content)],
                   json_mode := True,
                   temperature := Some (3 / 10)\<rparr>))
          w)"

definition GeminiProvider_generate_test_cases :: "platform \<Rightarrow> string \<Rightarrow> string \<Rightarrow> string \<Rightarrow> string \<Rightarrow> json io" where
  "GeminiProvider_generate_test_cases P api_key model code_content language w =
     loads_content P
       (sdk_call P 0 generate_content
          (Chat (no_chat\<lparr>bearer := api_key, model_id := model,
                   messages := [(''user'', Prompt ''GeminiProvider'' Tests language code_content)],
                   json_mode := True,
                   temperature := Some (4 / 10)\<rparr>))
          w)"

definition GeminiProvider_get_code_suggestions :: "platform \<Rightarrow> string \<Rightarrow> string \<Rightarrow> string \<Rightarrow> string \<Rightarrow> json io" where
  "GeminiProvider_get_code_suggestions P api_key model code_content language w =
     loads_content P
       (sdk_call P 0 generate_content
          (Chat (no_chat\<lparr>bearer := api_key, model_id := model,
                   messages := [(''user'', Prompt ''GeminiProvider'' Suggestions language code_content)],
                   json_mode := True,
                   temperature := Some (3 / 10)\<rparr>))
          w)"

subsection \<open>PerplexityProvider\<close>

definition PerplexityProvider_make_request :: "platform \<Rightarrow> string \<Rightarrow> string \<Rightarrow> template \<Rightarrow> template \<Rightarrow> json io" where
  "PerplexityProvider_make_request P api_key model prompt system_message w =
     (case requests_post
             (Chat (no_chat\<lparr>target := ''https://api.perplexity.ai/chat/completions'',
                      bearer := api_key, model_id := model,
                      messages := [(''system'', system_message), (''user'', prompt)],
                      temperature := Some (3 / 10),
                      stream := Some False\<rparr>))
             w of
        (Inl e, w') \<Rightarrow> (Inl e, w')
      | (Inr (status_code, body), w') \<Rightarrow>
          (if status_code = 200
           then (case response_json P body of
                   Inl e \<Rightarrow> (Inl e, w')
                 | Inr result \<Rightarrow>
                     (case choices_content result of
                        Inl e \<Rightarrow> (Inl e, w')
                      | Inr content \<Rightarrow> (loads_value P content, w')))
           else (Inl (Exception (''Perplexity API error: '' @ str_nat status_code @ '' - '' @ body)),
                 w')))"

definition PerplexityProvider_analyze_code_quality :: "platform \<Rightarrow> string \<Rightarrow> string \<Rightarrow> string \<Rightarrow> string \<Rightarrow> json io" where
  "PerplexityProvider_analyze_code_quality P api_key model code_content language w =
     PerplexityProvider_make_request P api_key model
       (Prompt ''PerplexityProvider'' Quality language code_content)
       (Persona ''PerplexityProvider'' Quality) w"

definition PerplexityProvider_generate_test_cases :: "platform \<Rightarrow> string \<Rightarrow> string \<Rightarrow> string \<Rightarrow> string \<Rightarrow> json io" where
  "PerplexityProvider_generate_test_cases P api_key model code_content language w =
     PerplexityProvider_make_request P api_key model
       (Prompt ''PerplexityProvider'' Tests language code_content)
       (Persona ''PerplexityProvider'' Tests) w"

definition PerplexityProvider_get_code_suggestions :: "platform \<Rightarrow> string \<Rightarrow> string \<Rightarrow> string \<Rightarrow> string \<Rightarrow> json io" where
  "PerplexityProvider_get_code_suggestions P api_key model code_content language w =
     PerplexityProvider_make_request P api_key model
       (Prompt ''PerplexityProvider'' Suggestions language code_content)
       (Persona ''PerplexityProvider'' Suggestions) w"

subsection \<open>XAIProvider\<close>

definition XAIProvider_analyze_code_quality :: "platform \<Rightarrow> string \<Rightarrow> string \<Rightarrow> string \<Rightarrow> string \<Rightarrow> json io" where
  "XAIProvider_analyze_code_quality P api_key model code_content language w =
     loads_content P
       (sdk_call P DEFAULT_MAX_RETRIES chat_completions_create
          (Chat (no_chat\<lparr>target := ''https://api.x.ai/v1'', bearer := api_key, model_id := model,
                   messages := [(''system'', Persona ''XAIProvider'' Quality),
                                (''user'', Prompt ''XAIProvider'' Quality language code_content)],
                   json_mode := True,
                   temperature := Some (3 / 10)\<rparr>))
          w)"

definition XAIProvider_generate_test_cases :: "platform \<Rightarrow> string \<Rightarrow> string \<Rightarrow> string \<Rightarrow> string \<Rightarrow> json io" where
  "XAIProvider_generate_test_cases P api_key model code_content language w =
     loads_content P
       (sdk_call P DEFAULT_MAX_RETRIES chat_completions_create
          (Chat (no_chat\<lparr>target := ''https://api.x.ai/v1'', bearer := api_key, model_id := model,
                   messages := [(''system'', Persona ''XAIProvider'' Tests),
                                (''user'', Prompt ''XAIProvider'' Tests language code_content)],
                   json_mode := True,
                   temperature := Some (4 / 10)\<rparr>))
          w)"

definition XAIProvider_get_code_suggestions :: "platform \<Rightarrow> string \<Rightarrow> string \<Rightarrow> string \<Rightarrow> string \<Rightarrow> json io" where
  "XAIProvider_get_code_suggestions P api_key model code_content language w =
     loads_content P
       (sdk_call P DEFAULT_MAX_RETRIES chat_completions_create
          (Chat (no_chat\<lparr>target := ''https://api.x.ai/v1'', bearer := api_key, model_id := model,
                   messages := [(''system'', Persona ''XAIProvider'' Suggestions),
                                (''user'', Prompt ''XAIProvider'' Suggestions language code_content)],
                   json_mode := True,
                   temperature := Some (3 / 10)\<rparr>))
          w)"

subsection \<open>HTTPProvider\<close>

definition HTTPProvider_make_request ::
  "platform \<Rightarrow> string \<Rightarrow> string \<Rightarrow> string \<Rightarrow> (string \<times> string) list \<Rightarrow> template \<Rightarrow> template \<Rightarrow> json io" where
  "HTTPProvider_make_request P api_key model base_url headers prompt system_message w =
     (case requests_post
             (Chat (no_chat\<lparr>target := base_url @ ''/chat/completions'',
                      bearer := api_key, model_id := model,
                      extra_headers := headers,
                      messages := [(''system'', system_message), (''user'', prompt)],
                      temperature := Some (3 / 10),
                      max_tokens := Some 4000,
                      timeout := Some 60\<rparr>))
             w of
        (Inl e, w') \<Rightarrow> (Inl e, w')
      | (Inr (status_code, body), w') \<Rightarrow>
          (if status_code = 200
           then (case response_json P body of
                   Inl e \<Rightarrow> (Inl e, w')
                 | Inr result \<Rightarrow>
                     (case choices_content result of
                        Inl e \<Rightarrow> (Inl e, w')
                      | Inr content \<Rightarrow>
                          (case loads_value P content of
                             Inl (JSONDecodeError doc) \<Rightarrow>
                               (Inr (JObj [(''error'', JStr ''Invalid JSON response''),
                                           (''content'', content)]), w')
                           | r \<Rightarrow> (r, w'))))
           else (Inl (Exception (''API error: '' @ str_nat status_code @ '' - '' @ body)), w')))"

definition HTTPProvider_analyze_code_quality ::
  "platform \<Rightarrow> string \<Rightarrow> string \<Rightarrow> string \<Rightarrow> (string \<times> string) list \<Rightarrow> string \<Rightarrow> string \<Rightarrow> json io" where
  "HTTPProvider_analyze_code_quality P api_key model base_url headers code_content language w =
     HTTPProvider_make_request P api_key model base_url headers
       (Prompt ''HTTPProvider'' Quality language code_content)
       (Persona ''HTTPProvider'' Quality) w"

definition HTTPProvider_generate_test_cases ::
  "platform \<Rightarrow> string \<Rightarrow> string \<Rightarrow> string \<Rightarrow> (string \<times> string) list \<Rightarrow> string \<Rightarrow> string \<Rightarrow> json io" where
  "HTTPProvider_generate_test_cases P api_key model base_url headers code_content language w =
     HTTPProvider_make_request P api_key model base_url headers
       (Prompt ''HTTPProvider'' Tests language code_content)
       (Persona ''HTTPProvider'' Tests) w"

definition HTTPProvider_get_code_suggestions ::
  "platform \<Rightarrow> string \<Rightarrow> string \<Rightarrow> string \<Rightarrow> (string \<times> string) list \<Rightarrow> string \<Rightarrow> string \<Rightarrow> json io" where
  "HTTPProvider_get_code_suggestions P api_key model base_url headers code_content language w =
     HTTPProvider_make_request P api_key model base_url headers
       (Prompt ''HTTPProvider'' Suggestions language code_content)
       (Persona ''HTTPProvider'' Suggestions) w"

subsection \<open>Method dispatch\<close>

fun analyze_code_quality :: "platform \<Rightarrow> adapter \<Rightarrow> string \<Rightarrow> string \<Rightarrow> json io" where
  "analyze_code_quality P (OpenAIProvider k m) = OpenAIProvider_analyze_code_quality P k m"
| "analyze_code_quality P (AnthropicProvider k m) = AnthropicProvider_analyze_code_quality P k m"
| "analyze_code_quality P (GeminiProvider k m) = GeminiProvider_analyze_code_quality P k m"
| "analyze_code_quality P (PerplexityProvider k m) = PerplexityProvider_analyze_code_quality P k m"
| "analyze_code_quality P (XAIProvider k m) = XAIProvider_analyze_code_quality P k m"
| "analyze_code_quality P (HTTPProvider k m b h) = HTTPProvider_analyze_code_quality P k m b h"

fun generate_test_cases :: "platform \<Rightarrow> adapter \<Rightarrow> string \<Rightarrow> string \<Rightarrow> json io" where
  "generate_test_cases P (OpenAIProvider k m) = OpenAIProvider_generate_test_cases P k m"
| "generate_test_cases P (AnthropicProvider k m) = AnthropicProvider_generate_test_cases P k m"
| "generate_test_cases P (GeminiProvider k m) = GeminiProvider_generate_test_cases P k m"
| "generate_test_cases P (PerplexityProvider k m) = PerplexityProvider_generate_test_cases P k m"
| "generate_test_cases P (XAIProvider k m) = XAIProvider_generate_test_cases P k m"
| "generate_test_cases P (HTTPProvider k m b h) = HTTPProvider_generate_test_cases P k m b h"

fun get_code_suggestions :: "platform \<Rightarrow> adapter \<Rightarrow> string \<Rightarrow> string \<Rightarrow> json io" where
  "get_code_suggestions P (OpenAIProvider k m) = OpenAIProvider_get_code_suggestions P k m"
| "get_code_suggestions P (AnthropicProvider k m) = AnthropicProvider_get_code_suggestions P k m"
| "get_code_suggestions P (GeminiProvider k m) = GeminiProvider_get_code_suggestions P k m"
| "get_code_suggestions P (PerplexityProvider k m) = PerplexityProvider_get_code_suggestions P k m"
| "get_code_suggestions P (XAIProvider k m) = XAIProvider_get_code_suggestions P k m"
| "get_code_suggestions P (HTTPProvider k m b h) = HTTPProvider_get_code_suggestions P k m b h"

text \<open>The operation a caller asks for, by name.\<close>

fun perform :: "platform \<Rightarrow> adapter \<Rightarrow> operation \<Rightarrow> string \<Rightarrow> string \<Rightarrow> json io" where
  "perform P a Quality = analyze_code_quality P a"
| "perform P a Tests = generate_test_cases P a"
| "perform P a Suggestions = get_code_suggestions P a"

section \<open>The provider catalog\<close>

record provider_descriptor =
  provider_id :: string
  display_name :: string
  models :: "(string \<times> string) list"
  api_key_env :: string
  requires :: "string list"

definition AI_PROVIDERS :: "provider_descriptor list" where
  "AI_PROVIDERS =
     [\<lparr>provider_id = ''openai'',
       display_name = ''OpenAI'',
       models = [(''gpt-4o'', ''GPT-4o (Latest)''),
                   (''gpt-4o-mini'', ''GPT-4o Mini''),
                   (''gpt-4-turbo'', ''GPT-4 Turbo''),
                   (''gpt-4-turbo-preview'', ''GPT-4 Turbo Preview''),
                   (''gpt-4'', ''GPT-4''),
                   (''gpt-4-0613'', ''GPT-4 (June 2023)''),
                   (''gpt-3.5-turbo'', ''GPT-3.5 Turbo''),
                   (''gpt-3.5-turbo-16k'', ''GPT-3.5 Turbo 16K''),
                   (''gpt-3.5-turbo-1106'', ''GPT-3.5 Turbo (Nov 2023)'')],
       api_key_env = ''OPENAI_API_KEY'',
       requires = [''openai'']\<rparr>,
      \<lparr>provider_id = ''anthropic'',
       display_name = ''Anthropic Claude'',
       models = [(''claude-sonnet-4-20250514'', ''Claude 4.0 Sonnet (Latest)''),
                   (''claude-3-7-sonnet-20250219'', ''Claude 3.7 Sonnet''),
                   (''claude-3-5-sonnet-20241022'', ''Claude 3.5 Sonnet''),
                   (''claude-3-5-haiku-20241022'', ''Claude 3.5 Haiku''),
                   (''claude-3-opus-20240229'', ''Claude 3 Opus''),
                   (''claude-3-sonnet-20240229'', ''Claude 3 Sonnet''),
                   (''claude-3-haiku-20240307'', ''Claude 3 Haiku''),
                   (''claude-2.1'', ''Claude 2.1''),
                   (''claude-2.0'', ''Claude 2.0''),
                   (''claude-instant-1.2'', ''Claude Instant 1.2'')],
       api_key_env = ''ANTHROPIC_API_KEY'',
       requires = [''anthropic'']\<rparr>,
      \<lparr>provider_id = ''gemini'',
       display_name = ''Google Gemini'',
       models = [(''gemini-2.5-pro'', ''Gemini 2.5 Pro (Latest)''),
                   (''gemini-2.5-flash'', ''Gemini 2.5 Flash''),
                   (''gemini-1.5-pro'', ''Gemini 1.5 Pro''),
                   (''gemini-1.5-flash'', ''Gemini 1.5 Flash''),
                   (''gemini-1.0-pro'', ''Gemini 1.0 Pro''),
                   (''gemini-pro'', ''Gemini Pro''),
                   (''gemini-pro-vision'', ''Gemini Pro Vision'')],
       api_key_env = ''GEMINI_API_KEY'',
       requires = [''google-genai'']\<rparr>,
      \<lparr>provider_id = ''xai'',
       display_name = ''xAI Grok'',
       models = [(''grok-2-vision-1212'', ''Grok 2 Vision (Latest)''),
                   (''grok-2-1212'', ''Grok 2''),
                   (''grok-vision-beta'', ''Grok Vision Beta''),
                   (''grok-beta'', ''Grok Beta''),
                   (''grok-1'', ''Grok 1'')],
       api_key_env = ''XAI_API_KEY'',
       requires = [''openai'']\<rparr>,
      \<lparr>provider_id = ''perplexity'',
       display_name = ''Perplexity'',
       models = [(''llama-3.1-sonar-huge-128k-online'', ''Llama 3.1 Sonar Huge (Online)''),
                   (''llama-3.1-sonar-large-128k-online'', ''Llama 3.1 Sonar Large (Online)''),
                   (''llama-3.1-sonar-small-128k-online'', ''Llama 3.1 Sonar Small (Online)''),
                   (''llama-3.1-sonar-large-128k-chat'', ''Llama 3.1 Sonar Large (Chat)''),
                   (''llama-3.1-sonar-small-128k-chat'', ''Llama 3.1 Sonar Small (Chat)''),
                   (''llama-3.1-8b-instruct'', ''Llama 3.1 8B Instruct''),
                   (''llama-3.1-70b-instruct'', ''Llama 3.1 70B Instruct''),
                   (''codellama-34b-instruct'', ''CodeLlama 34B Instruct''),
                   (''codellama-70b-instruct'', ''CodeLlama 70B Instruct''),
                   (''mistral-7b-instruct'', ''Mistral 7B Instruct''),
                   (''mixtral-8x7b-instruct'', ''Mixtral 8x7B Instruct'')],
       api_key_env = ''PERPLEXITY_API_KEY'',
       requires = [''requests'']\<rparr>,
      \<lparr>provider_id = ''cohere'',
       display_name = ''Cohere'',
       models = [(''command-r-plus'', ''Command R+ (Latest)''),
                   (''command-r'', ''Command R''),
                   (''command'', ''Command''),
                   (''command-nightly'', ''Command Nightly''),
                   (''command-light'', ''Command Light''),
                   (''command-light-nightly'', ''Command Light Nightly'')],
       api_key_env = ''COHERE_API_KEY'',
       requires = [''requests'']\<rparr>,
      \<lparr>provider_id = ''mistral'',
       display_name = ''Mistral AI'',
       models = [(''mistral-large-latest'', ''Mistral Large (Latest)''),
                   (''mistral-medium-latest'', ''Mistral Medium''),
                   (''mistral-small-latest'', ''Mistral Small''),
                   (''open-mistral-7b'', ''Open Mistral 7B''),
                   (''open-mixtral-8x7b'', ''Open Mixtral 8x7B''),
                   (''open-mixtral-8x22b'', ''Open Mixtral 8x22B''),
                   (''codestral-latest'', ''Codestral (Code)''),
                   (''mistral-embed'', ''Mistral Embed'')],
       api_key_env = ''MISTRAL_API_KEY'',
       requires = [''requests'']\<rparr>,
      \<lparr>provider_id = ''huggingface'',
       display_name = ''HuggingFace'',
       models = [(''meta-llama/Llama-2-70b-chat-hf'', ''Llama 2 70B Chat''),
                   (''meta-llama/Llama-2-13b-chat-hf'', ''Llama 2 13B Chat''),
                   (''meta-llama/Llama-2-7b-chat-hf'', ''Llama 2 7B Chat''),
                   (''codellama/CodeLlama-34b-Instruct-hf'', ''CodeLlama 34B Instruct''),
                   (''microsoft/DialoGPT-large'', ''DialoGPT Large''),
                   (''microsoft/CodeBERT-base'', ''CodeBERT Base''),
                   (''Salesforce/codegen-16B-mono'', ''CodeGen 16B''),
                   (''bigcode/starcoder'', ''StarCoder'')],
       api_key_env = ''HUGGINGFACE_API_KEY'',
       requires = [''requests'']\<rparr>,
      \<lparr>provider_id = ''together'',
       display_name = ''Together AI'',
       models = [(''meta-llama/Llama-2-70b-chat-hf'', ''Llama 2 70B Chat''),
                   (''meta-llama/Llama-2-13b-chat-hf'', ''Llama 2 13B Chat''),
                   (''meta-llama/Llama-2-7b-chat-hf'', ''Llama 2 7B Chat''),
                   (''codellama/CodeLlama-34b-Instruct-hf'', ''CodeLlama 34B Instruct''),
                   (''codellama/CodeLlama-13b-Instruct-hf'', ''CodeLlama 13B Instruct''),
                   (''codellama/CodeLlama-7b-Instruct-hf'', ''CodeLlama 7B Instruct''),
                   (''WizardLM/WizardCoder-Python-34B-V1.0'', ''WizardCoder Python 34B''),
                   (''Phind/Phind-CodeLlama-34B-v2'', ''Phind CodeLlama 34B v2'')],
       api_key_env = ''TOGETHER_API_KEY'',
       requires = [''requests'']\<rparr>]"

definition get_available_providers :: "provider_descriptor list" where
  "get_available_providers = AI_PROVIDERS"

section \<open>The factory\<close>

text \<open>
  The SDK constructors the source calls. A name bound to \<^verbatim>\<open>None\<close> by a failed import
  cannot be called (\<^verbatim>\<open>OpenAI(...)\<close> raises \<^verbatim>\<open>TypeError\<close>) and has no attribute
  (\<^verbatim>\<open>anthropic.Anthropic\<close>, \<^verbatim>\<open>genai.Client\<close> raise \<^verbatim>\<open>AttributeError\<close>). The
  constructors of \<^verbatim>\<open>openai\<close> and \<^verbatim>\<open>google-genai\<close> raise on a credential they do not
  take; the one of \<^verbatim>\<open>anthropic\<close> takes any. Building a client object sends nothing.
\<close>

definition OpenAI_client :: "platform \<Rightarrow> string \<Rightarrow> error + unit" where
  "OpenAI_client P api_key =
     (if \<not> OpenAI_imported P then Inl TypeError
      else if \<not> OpenAI_accepts P api_key then Inl OpenAIError
      else Inr ())"

definition Anthropic_client :: "platform \<Rightarrow> error + unit" where
  "Anthropic_client P = (if anthropic_imported P then Inr () else Inl AttributeError)"

definition genai_Client :: "platform \<Rightarrow> string \<Rightarrow> error + unit" where
  "genai_Client P api_key =
     (if \<not> genai_imported P then Inl AttributeError
      else if \<not> genai_accepts P api_key then Inl GenaiValueError
      else Inr ())"

text \<open>
  \<^verbatim>\<open>AIProvider.__init__\<close> stores the credential and the model and calls the class's
  \<^verbatim>\<open>_initialize_client\<close>.
\<close>

definition OpenAIProvider_init :: "platform \<Rightarrow> string \<Rightarrow> string \<Rightarrow> error + adapter" where
  "OpenAIProvider_init P api_key model =
     (case OpenAI_client P api_key of Inl e \<Rightarrow> Inl e | Inr client \<Rightarrow> Inr (OpenAIProvider api_key model))"

definition AnthropicProvider_init :: "platform \<Rightarrow> string \<Rightarrow> string \<Rightarrow> error + adapter" where
  "AnthropicProvider_init P api_key model =
     (case Anthropic_client P of Inl e \<Rightarrow> Inl e | Inr client \<Rightarrow> Inr (AnthropicProvider api_key model))"

definition GeminiProvider_init :: "platform \<Rightarrow> string \<Rightarrow> string \<Rightarrow> error + adapter" where
  "GeminiProvider_init P api_key model =
     (case genai_Client P api_key of Inl e \<Rightarrow> Inl e | Inr client \<Rightarrow> Inr (GeminiProvider api_key model))"

definition PerplexityProvider_init :: "platform \<Rightarrow> string \<Rightarrow> string \<Rightarrow> error + adapter" where
  "PerplexityProvider_init P api_key model = Inr (PerplexityProvider api_key model)"

definition XAIProvider_init :: "platform \<Rightarrow> string \<Rightarrow> string \<Rightarrow> error + adapter" where
  "XAIProvider_init P api_key model =
     (case OpenAI_client P api_key of Inl e \<Rightarrow> Inl e | Inr client \<Rightarrow> Inr (XAIProvider api_key model))"

definition HTTPProvider_init :: "platform \<Rightarrow> string \<Rightarrow> string \<Rightarrow> string \<Rightarrow> error + adapter" where
  "HTTPProvider_init P api_key model base_url = Inr (HTTPProvider api_key model base_url [])"

definition create_ai_provider :: "platform \<Rightarrow> string \<Rightarrow> string \<Rightarrow> string \<Rightarrow> adapter io" where
  "create_ai_provider P provider_name api_key model w =
     (if provider_name = ''openai'' then (OpenAIProvider_init P api_key model, w)
      else if provider_name = ''anthropic'' then (AnthropicProvider_init P api_key model, w)
      else if provider_name = ''gemini'' then (GeminiProvider_init P api_key model, w)
      else if provider_name = ''perplexity'' then (PerplexityProvider_init P api_key model, w)
      else if provider_name = ''xai'' then (XAIProvider_init P api_key model, w)
      else if provider_name = ''cohere''
        then (HTTPProvider_init P api_key model ''https://api.cohere.ai/v1'', w)
      else if provider_name = ''mistral''
        then (HTTPProvider_init P api_key model ''https://api.mistral.ai/v1'', w)
      else if provider_name = ''huggingface''
        then (HTTPProvider_init P api_key model ''https://api-inference.huggingface.co/models'', w)
      else if provider_name = ''together''
        then (HTTPProvider_init P api_key model ''https://api.together.xyz/v1'', w)
      else (Inl (ValueError (''Unsupported AI provider: '' @ provider_name)), w))"

section \<open>Credential validation\<close>

text \<open>A probe through an SDK client: build the client, make the call, drop the answer.\<close>

definition sdk_probe ::
  "platform \<Rightarrow> error + unit \<Rightarrow> nat \<Rightarrow> sdk_method \<Rightarrow> call \<Rightarrow> unit io" where
  "sdk_probe P client max_retries meth c w =
     (case client of
        Inl e \<Rightarrow> (Inl e, w)
      | Inr u \<Rightarrow>
          (case sdk_call P max_retries meth c w of
             (Inl e, w') \<Rightarrow> (Inl e, w')
           | (Inr answer, w') \<Rightarrow> (Inr (), w')))"

text \<open>A probe through \<^verbatim>\<open>requests\<close>: post, then \<^verbatim>\<open>raise_for_status\<close>.\<close>

definition requests_probe :: "string \<Rightarrow> string \<Rightarrow> json \<Rightarrow> unit io" where
  "requests_probe url api_key data w =
     (case requests_post (Post url api_key data) w of
        (Inl e, w') \<Rightarrow> (Inl e, w')
      | (Inr (status_code, body), w') \<Rightarrow> (raise_for_status status_code, w'))"

definition chat_probe_data :: "string \<Rightarrow> json" where
  "chat_probe_data model =
     JObj [(''model'', JStr model),
           (''messages'', JArr [JObj [(''role'', JStr ''user''), (''content'', JStr ''Test'')]]),
           (''max_tokens'', JNum 1)]"

text \<open>The body of the \<^verbatim>\<open>try\<close> block of \<^verbatim>\<open>validate_api_key\<close>.\<close>

definition validate_api_key_try :: "platform \<Rightarrow> string \<Rightarrow> string \<Rightarrow> bool io" where
  "validate_api_key_try P provider api_key w =
     (let return_True = (\<lambda>r. case r of (Inl e, w') \<Rightarrow> (Inl e, w') | (Inr u, w') \<Rightarrow> (Inr True, w'))
      in if provider = ''openai''
           then return_True
                  (sdk_probe P (OpenAI_client P api_key) DEFAULT_MAX_RETRIES models_list
                     (ModelsList [] api_key) w)
         else if provider = ''anthropic''
           then return_True
                  (sdk_probe P (Anthropic_client P) DEFAULT_MAX_RETRIES messages_create
                     (Chat (no_chat\<lparr>bearer := api_key, model_id := ''claude-3-haiku-20240307'',
                              max_tokens := Some 1,
                              messages := [(''user'', Literal ''Hi'')]\<rparr>)) w)
         else if provider = ''gemini''
           then return_True
                  (sdk_probe P (genai_Client P api_key) 0 generate_content
                     (Chat (no_chat\<lparr>bearer := api_key, model_id := ''gemini-1.5-flash'',
                              messages := [(''user'', Literal ''Test'')]\<rparr>)) w)
         else if provider = ''perplexity''
           then return_True
                  (requests_probe ''https://api.perplexity.ai/chat/completions'' api_key
                     (chat_probe_data ''llama-3.1-sonar-small-128k-online'') w)
         else if provider = ''xai''
           then return_True
                  (sdk_probe P (OpenAI_client P api_key) DEFAULT_MAX_RETRIES models_list
                     (ModelsList ''https://api.x.ai/v1'' api_key) w)
         else if provider = ''cohere''
           then return_True
                  (requests_probe ''https://api.cohere.ai/v1/generate'' api_key
                     (JObj [(''model'', JStr ''command''), (''message'', JStr ''Test''),
                            (''max_tokens'', JNum 1)]) w)
         else if provider = ''mistral''
           then return_True
                  (requests_probe ''https://api.mistral.ai/v1/chat/completions'' api_key
                     (chat_probe_data ''mistral-small-latest'') w)
         else if provider = ''huggingface''
           then return_True
                  (requests_probe
                     ''https://api-inference.huggingface.co/models/microsoft/DialoGPT-large''
                     api_key (JObj [(''inputs'', JStr ''Test'')]) w)
         else if provider = ''together''
           then return_True
                  (requests_probe ''https://api.together.xyz/v1/chat/completions'' api_key
                     (chat_probe_data ''meta-llama/Llama-2-7b-chat-hf'') w)
         else (Inr False, w))"

text \<open>\<^verbatim>\<open>except Exception: return False\<close> around it.\<close>

definition validate_api_key :: "platform \<Rightarrow> string \<Rightarrow> string \<Rightarrow> bool io" where
  "validate_api_key P provider api_key w =
     (case validate_api_key_try P provider api_key w of
        (Inl e, w') \<Rightarrow> (Inr False, w')
      | (Inr b, w') \<Rightarrow> (Inr b, w'))"

section \<open>The credential vault\<close>

text \<open>
  \<^verbatim>\<open>cryptography.fernet.Fernet\<close> is a parameter. \<open>generate_key\<close> is
  \<^verbatim>\<open>Fernet.generate_key()\<close> on the \<open>n\<close>-th draw of the process's entropy;
  \<open>accepts_key\<close> says whether \<^verbatim>\<open>Fernet(key)\<close> takes the key (32 url-safe
  base64-encoded bytes) or raises \<^verbatim>\<open>ValueError\<close>; \<open>fernet_encrypt\<close> takes the key, a
  draw of entropy (the token's IV and timestamp) and the plaintext; \<open>fernet_decrypt\<close>
  is \<open>None\<close> where the library raises \<^verbatim>\<open>InvalidToken\<close>. Text and bytes are both
  byte lists, so \<^verbatim>\<open>encode\<close> and \<^verbatim>\<open>decode\<close> do not show.
\<close>

record fernet =
  generate_key :: "nat \<Rightarrow> string"
  accepts_key :: "string \<Rightarrow> bool"
  fernet_encrypt :: "string \<Rightarrow> nat \<Rightarrow> string \<Rightarrow> string"
  fernet_decrypt :: "string \<Rightarrow> string \<Rightarrow> string option"

text \<open>Python's truth value of a decoded document: \<^verbatim>\<open>not x\<close> is \<open>\<not> truthy x\<close>.\<close>

fun truthy :: "json \<Rightarrow> bool" where
  "truthy JNull = False"
| "truthy (JBool b) = b"
| "truthy (JNum n) = (n \<noteq> 0)"
| "truthy (JStr s) = (s \<noteq> [])"
| "truthy (JArr xs) = (xs \<noteq> [])"
| "truthy (JObj kvs) = (kvs \<noteq> [])"

text \<open>
  \<^verbatim>\<open>os.environ.get('ENCRYPTION_KEY', Fernet.generate_key())\<close>: Python evaluates the
  default argument before the call, so a key is drawn every time, and used when the
  variable is unset. The state threaded through the vault is the number of draws of
  entropy made so far.
\<close>

definition vault_key :: "platform \<Rightarrow> fernet \<Rightarrow> nat \<Rightarrow> string \<times> nat" where
  "vault_key P F n =
     (let fresh = generate_key F n
      in ((case environ P ''ENCRYPTION_KEY'' of Some k \<Rightarrow> k | None \<Rightarrow> fresh), Suc n))"

definition Fernet :: "fernet \<Rightarrow> string \<Rightarrow> error + string" where
  "Fernet F key =
     (if accepts_key F key then Inr key
      else Inl (ValueError ''Fernet key must be 32 url-safe base64-encoded bytes.''))"

definition encrypt_api_keys :: "platform \<Rightarrow> fernet \<Rightarrow> json \<Rightarrow> nat \<Rightarrow> (error + string option) \<times> nat" where
  "encrypt_api_keys P F api_keys_dict n =
     (if \<not> truthy api_keys_dict then (Inr None, n)
      else (case vault_key P F n of
              (key, n') \<Rightarrow>
                (case Fernet F key of
                   Inl e \<Rightarrow> (Inl e, n')
                 | Inr f \<Rightarrow> (Inr (Some (fernet_encrypt F f n' (json_dumps P api_keys_dict))), Suc n'))))"

text \<open>The body of the \<^verbatim>\<open>try\<close> block of \<^verbatim>\<open>decrypt_api_keys\<close>.\<close>

definition decrypt_api_keys_try :: "platform \<Rightarrow> fernet \<Rightarrow> string \<Rightarrow> nat \<Rightarrow> (error + json) \<times> nat" where
  "decrypt_api_keys_try P F encrypted_keys n =
     (case vault_key P F n of
        (key, n') \<Rightarrow>
          (case Fernet F key of
             Inl e \<Rightarrow> (Inl e, n')
           | Inr f \<Rightarrow>
               (case fernet_decrypt F f encrypted_keys of
                  None \<Rightarrow> (Inl InvalidToken, n')
                | Some plain \<Rightarrow> (loads P plain, n'))))"

text \<open>
  The stored blob is a nullable text column: \<open>None\<close> is Python's \<^verbatim>\<open>None\<close>. The bare
  \<^verbatim>\<open>except:\<close> turns every failure of the block into the empty mapping.
\<close>

definition decrypt_api_keys :: "platform \<Rightarrow> fernet \<Rightarrow> string option \<Rightarrow> nat \<Rightarrow> (error + json) \<times> nat" where
  "decrypt_api_keys P F encrypted_keys n =
     (case encrypted_keys of
        None \<Rightarrow> (Inr (JObj []), n)
      | Some blob \<Rightarrow>
          (if blob = [] then (Inr (JObj []), n)
           else (case decrypt_api_keys_try P F blob n of
                   (Inl e, n') \<Rightarrow> (Inr (JObj []), n')
                 | (Inr keys, n') \<Rightarrow> (Inr keys, n'))))"

text \<open>
  Storing and reading back, as \<^verbatim>\<open>update_settings\<close> and \<^verbatim>\<open>settings_page\<close> do through the
  \<^verbatim>\<open>api_keys\<close> column: what \<^verbatim>\<open>encrypt_api_keys\<close> returned is what \<^verbatim>\<open>decrypt_api_keys\<close>
  is given, later in the same process.
\<close>

definition store_then_load :: "platform \<Rightarrow> fernet \<Rightarrow> json \<Rightarrow> nat \<Rightarrow> (error + json) \<times> nat" where
  "store_then_load P F m n =
     (case encrypt_api_keys P F m n of
        (Inl e, n') \<Rightarrow> (Inl e, n')
      | (Inr blob, n') \<Rightarrow> decrypt_api_keys P F blob n')"

section \<open>What the analysis route keeps\<close>

text \<open>\<^verbatim>\<open>dict.get(key, default)\<close>; a value that is not a dictionary has no \<^verbatim>\<open>get\<close>.\<close>

fun dict_get :: "json \<Rightarrow> string \<Rightarrow> json \<Rightarrow> error + json" where
  "dict_get (JObj kvs) k d = (case map_of kvs k of None \<Rightarrow> Inr d | Some v \<Rightarrow> Inr v)"
| "dict_get j k d = Inl AttributeError"

text \<open>
  \<^verbatim>\<open>analyze_file\<close>: \<^verbatim>\<open>analysis.quality_score = quality_analysis.get('quality_score', 0)\<close>
\<close>

definition analyze_file_quality_score :: "json \<Rightarrow> error + json" where
  "analyze_file_quality_score quality_analysis = dict_get quality_analysis ''quality_score'' (JNum 0)"

section \<open>Notions of the specification\<close>

text \<open>
  The range invariant of a quality report, in the specification's words: the quality
  score and the maintainability, readability and security metrics are numbers in
  \<open>[0, 100]\<close>.
\<close>

definition in_0_100 :: "json option \<Rightarrow> bool" where
  "in_0_100 v = (case v of Some (JNum n) \<Rightarrow> 0 \<le> n \<and> n \<le> 100 | _ \<Rightarrow> False)"

definition quality_report_in_range :: "json \<Rightarrow> bool" where
  "quality_report_in_range report =
     (case report of
        JObj kvs \<Rightarrow>
          in_0_100 (map_of kvs ''quality_score'') \<and>
          (case map_of kvs ''metrics'' of
             Some (JObj ms) \<Rightarrow>
               in_0_100 (map_of ms ''maintainability'') \<and>
               in_0_100 (map_of ms ''readability'') \<and>
               in_0_100 (map_of ms ''security'')
           | _ \<Rightarrow> False)
      | _ \<Rightarrow> False)"

text \<open>
  The adapters that post with \<^verbatim>\<open>requests\<close> and read the chat-completions envelope
  themselves; the others call through an SDK client.
\<close>

fun uses_requests :: "adapter \<Rightarrow> bool" where
  "uses_requests (PerplexityProvider k m) = True"
| "uses_requests (HTTPProvider k m b h) = True"
| "uses_requests a = False"

text \<open>
  The client method an SDK adapter calls, and the \<^verbatim>\<open>max_retries\<close> its client was built
  with. The \<^verbatim>\<open>requests\<close> adapters have no client: they post a chat-completions body
  themselves, once.
\<close>

fun client_method :: "adapter \<Rightarrow> sdk_method" where
  "client_method (AnthropicProvider k m) = messages_create"
| "client_method (GeminiProvider k m) = generate_content"
| "client_method a = chat_completions_create"

fun client_retries :: "adapter \<Rightarrow> nat" where
  "client_retries (OpenAIProvider k m) = DEFAULT_MAX_RETRIES"
| "client_retries (XAIProvider k m) = DEFAULT_MAX_RETRIES"
| "client_retries (AnthropicProvider k m) = DEFAULT_MAX_RETRIES"
| "client_retries a = 0"

text \<open>
  The next answer of the network is a successful reply whose content text is \<open>txt\<close>:
  for an SDK adapter a 2xx reply from whose body the client method reads that text, for a
  \<^verbatim>\<open>requests\<close> adapter a reply of status 200 whose body decodes to an envelope with
  \<open>txt\<close> at \<^verbatim>\<open>['choices'][0]['message']['content']\<close>.
\<close>

definition enveloped :: "platform \<Rightarrow> string \<Rightarrow> string \<Rightarrow> bool" where
  "enveloped P body txt =
     (case json_loads P body of
        Some result \<Rightarrow> choices_content result = Inr (JStr txt)
      | None \<Rightarrow> False)"

definition delivers :: "platform \<Rightarrow> adapter \<Rightarrow> world \<Rightarrow> string \<Rightarrow> bool" where
  "delivers P a w txt =
     (case script w of
        Reply status body # rest \<Rightarrow>
          (if uses_requests a then status = 200 \<and> enveloped P body txt
           else 200 \<le> status \<and> status < 300 \<and> sdk_parse P (client_method a) body = Some txt)
      | _ \<Rightarrow> False)"



text \<open>
  An outcome of a probe call that is a transport failure for every kind of client: no
  reply, or a reply with a 4xx or 5xx status.
\<close>

fun transport_failure :: "outcome \<Rightarrow> bool" where
  "transport_failure (Reply status body) = (400 \<le> status \<and> status < 600)"
| "transport_failure ConnectionFailed = True"
| "transport_failure TimedOut = True"

text \<open>What the network answers to the next call.\<close>

definition next_outcome :: "world \<Rightarrow> outcome" where
  "next_outcome w = (case script w of [] \<Rightarrow> ConnectionFailed | out # rest \<Rightarrow> out)"

text \<open>
  The answer that a client with the given \<^verbatim>\<open>max_retries\<close> ends on: the first answer
  that it does not retry, or the one to its last attempt.
\<close>

fun final_outcome :: "nat \<Rightarrow> world \<Rightarrow> outcome" where
  "final_outcome 0 w = next_outcome w"
| "final_outcome (Suc remaining) w =
     (if should_retry (next_outcome w)
      then final_outcome remaining (w\<lparr>script := tl (script w)\<rparr>)
      else next_outcome w)"

text \<open>
  The probe of \<^verbatim>\<open>validate_api_key\<close> for a backend: the \<^verbatim>\<open>max_retries\<close> of the client it
  goes through (none for a probe posted with \<^verbatim>\<open>requests\<close>) and the client method it
  calls.
\<close>

definition probe_retries :: "string \<Rightarrow> nat" where
  "probe_retries provider =
     (if provider = ''openai'' \<or> provider = ''xai'' \<or> provider = ''anthropic''
      then DEFAULT_MAX_RETRIES else 0)"

definition probe_method :: "string \<Rightarrow> sdk_method option" where
  "probe_method provider =
     (if provider = ''openai'' \<or> provider = ''xai'' then Some models_list
      else if provider = ''anthropic'' then Some messages_create
      else if provider = ''gemini'' then Some generate_content
      else None)"

text \<open>
  What an operation adds to the calls sent: one chat request with temperature \<open>t\<close>,
  sent once and then again at most \<open>retries\<close> times.
\<close>

definition chats_sent :: "rat option \<Rightarrow> nat \<Rightarrow> world \<Rightarrow> world \<Rightarrow> bool" where
  "chats_sent t retries w w' =
     (\<exists>r k. temperature r = t \<and> k \<le> retries \<and> sent w' = sent w @ replicate (Suc k) (Chat r))"

text \<open>The temperature of the call sent last.\<close>

definition requested_temperature :: "world \<Rightarrow> rat option" where
  "requested_temperature w =
     (case rev (sent w) of
        Chat r # earlier \<Rightarrow> temperature r
      | _ \<Rightarrow> None)"

text \<open>
  The packages a backend needs, by the \<^verbatim>\<open>requires\<close> entry of its catalog descriptor,
  can be imported.
\<close>

definition package_importable :: "platform \<Rightarrow> string \<Rightarrow> bool" where
  "package_importable P pkg =
     (if pkg = ''openai'' then OpenAI_imported P
      else if pkg = ''anthropic'' then anthropic_imported P
      else if pkg = ''google-genai'' then genai_imported P
      else True)"

definition requirements_met :: "platform \<Rightarrow> string \<Rightarrow> bool" where
  "requirements_met P provider_name =
     list_all (\<lambda>d. provider_id d = provider_name \<longrightarrow> list_all (package_importable P) (requires d))
       AI_PROVIDERS"

text \<open>The constructor of the client that a backend goes through takes the credential.\<close>

definition credential_taken :: "platform \<Rightarrow> string \<Rightarrow> string \<Rightarrow> bool" where
  "credential_taken P provider_name api_key =
     ((provider_name = ''openai'' \<or> provider_name = ''xai'' \<longrightarrow> OpenAI_accepts P api_key) \<and>
      (provider_name = ''gemini'' \<longrightarrow> genai_accepts P api_key))"

definition in_catalog :: "string \<Rightarrow> bool" where
  "in_catalog provider_name = (provider_name \<in> set (map provider_id AI_PROVIDERS))"

section \<open>Sample surroundings\<close>

text \<open>
  Concrete surroundings at which the model is evaluated. The decoder is a finite part of
  the graph of \<^verbatim>\<open>json.loads\<close>: each text of the table with the document it denotes;
  any other text used below (\<open>not json\<close>) is not JSON.
\<close>

text \<open>\<^verbatim>\<open>str.lower\<close> as it acts on a text of ASCII characters.\<close>

definition ascii_lower_char :: "char \<Rightarrow> char" where
  "ascii_lower_char c =
     (let n = (of_char c :: nat)
      in if 65 \<le> n \<and> n \<le> 90 then char_of (n + 32) else c)"

definition ascii_lower :: "string \<Rightarrow> string" where
  "ascii_lower s = map ascii_lower_char s"

definition sample_report_text :: string where
  \<open>sample_report_text =
     ''{"quality_score": 150, "metrics": {"maintainability": 50, "readability": 50, "security": -5}}''\<close>

definition sample_report :: json where
  "sample_report =
     JObj [(''quality_score'', JNum 150),
           (''metrics'', JObj [(''maintainability'', JNum 50), (''readability'', JNum 50),
                               (''security'', JNum (- 5))])]"

definition sample_envelope_text :: string where
  \<open>sample_envelope_text = ''{"choices": [{"message": {"content": "not json"}}]}''\<close>

definition sample_envelope :: json where
  "sample_envelope =
     JObj [(''choices'', JArr [JObj [(''message'', JObj [(''content'', JStr ''not json'')])]])]"

definition sample_keys_text :: string where
  \<open>sample_keys_text = ''{"OPENAI_API_KEY": "sk-test"}''\<close>

definition sample_keys :: json where
  "sample_keys = JObj [(''OPENAI_API_KEY'', JStr ''sk-test'')]"

definition sample_json_loads :: "string \<Rightarrow> json option" where
  "sample_json_loads =
     map_of [(sample_report_text, sample_report),
             (sample_envelope_text, sample_envelope),
             (sample_keys_text, sample_keys)]"

definition sample_json_dumps :: "json \<Rightarrow> string" where
  "sample_json_dumps j = (if j = sample_keys then sample_keys_text else ''null'')"

text \<open>
  The bodies that the chat-completions, messages and generate-content endpoints and the
  models list answer with, around a content text, and a finite part of what the SDK
  clients read from them. A body that is not in the table (\<open>ok\<close>) is one that the
  client cannot parse.
\<close>

definition json_escape :: "string \<Rightarrow> string" where
  "json_escape s =
     concat (map (\<lambda>c. if c = CHR 0x22 \<or> c = CHR 0x5C then [CHR 0x5C, c] else [c]) s)"

definition chat_completion_body :: "string \<Rightarrow> string" where
  \<open>chat_completion_body content =
     ''{"choices": [{"message": {"role": "assistant", "content": "'' @ json_escape content @
     ''"}}]}''\<close>

definition message_body :: "string \<Rightarrow> string" where
  \<open>message_body content =
     ''{"type": "message", "content": [{"type": "text", "text": "'' @ json_escape content @
     ''"}]}''\<close>

definition generate_content_body :: "string \<Rightarrow> string" where
  \<open>generate_content_body content =
     ''{"candidates": [{"content": {"parts": [{"text": "'' @ json_escape content @
     ''"}]}}]}''\<close>

definition models_body :: string where
  \<open>models_body = ''{"object": "list", "data": []}''\<close>

definition sample_bodies :: "sdk_method \<Rightarrow> (string \<times> string) list" where
  "sample_bodies meth =
     (case meth of
        chat_completions_create \<Rightarrow>
          [(chat_completion_body ''not json'', ''not json''),
           (chat_completion_body sample_report_text, sample_report_text)]
      | messages_create \<Rightarrow>
          [(message_body ''not json'', ''not json''),
           (message_body sample_report_text, sample_report_text)]
      | generate_content \<Rightarrow>
          [(generate_content_body ''not json'', ''not json''),
           (generate_content_body sample_report_text, sample_report_text)]
      | models_list \<Rightarrow> [(models_body, [])])"

definition sample_sdk_parse :: "sdk_method \<Rightarrow> string \<Rightarrow> string option" where
  "sample_sdk_parse meth = map_of (sample_bodies meth)"

definition sample_platform :: platform where
  "sample_platform =
     \<lparr>OpenAI_imported = True, anthropic_imported = True, genai_imported = True,
      json_loads = sample_json_loads, json_dumps = sample_json_dumps,
      environ = Map.empty, str_lower = ascii_lower,
      OpenAI_accepts = (\<lambda>api_key. api_key \<noteq> []),
      genai_accepts = (\<lambda>api_key. api_key \<noteq> []),
      sdk_parse = sample_sdk_parse\<rparr>"

definition answering :: "outcome list \<Rightarrow> world" where
  "answering outs = \<lparr>sent = [], script = outs\<rparr>"

text \<open>
  A stand-in for the Fernet library at which the vault is evaluated: a key is two
  characters, a token is the key followed by the plaintext. It keeps the two facts the
  vault depends on, that a token opens under its own key and under no other, and nothing
  of the secrecy of the real cipher.
\<close>

definition sample_fernet :: fernet where
  "sample_fernet =
     \<lparr>generate_key = (\<lambda>n. ''K'' @ str_nat n),
      accepts_key = (\<lambda>k. length k = 2),
      fernet_encrypt = (\<lambda>k e p. k @ p),
      fernet_decrypt = (\<lambda>k t. if length k = 2 \<and> take 2 t = k then Some (drop 2 t) else None)\<rparr>"

section \<open>Language detection: the lookup order\<close>

lemma extension_map_never_text:
  "map_of extension_map ext = Some l \<Longrightarrow> l \<noteq> ''text''"
proof
  assume m: "map_of extension_map ext = Some l" and t: "l = ''text''"
  from m have "(ext, l) \<in> set extension_map" by (rule map_of_SomeD)
  then have "l \<in> snd ` set extension_map" by force
  with t show False by (simp add: extension_map_def)
qed

lemma str_contains_sublist: "str_contains sub s = sublist sub s"
  by (induction s) (auto simp: sublist_Cons_right)

lemma sample_py_extension: "snd (splitext (str_lower sample_platform ''sample.py'')) = ''.py''"
  unfolding sample_platform_def by code_simp

lemma sample_txt_extension: "snd (splitext (str_lower sample_platform ''sample.txt'')) = ''.txt''"
  unfolding sample_platform_def by code_simp

lemma py_in_extension_map: "map_of extension_map ''.py'' = Some ''python''"
  by code_simp

lemma txt_not_in_extension_map: "map_of extension_map ''.txt'' = None"
  by code_simp

text \<open>
  C7. \<^verbatim>\<open>detect_language\<close> gives a file whose extension (the extension of the name
  as \<^verbatim>\<open>str.lower\<close> returns it, whatever the case mapping does) is in the extension table
  the language of the table, whatever the content. For
  a file whose extension is not in the table it gives \<open>text\<close> when the content is empty,
  and otherwise the language of the first content heuristic that matches, in the order
  python (\<open>def\<close> and \<open>import\<close>), javascript (\<open>function\<close> with \<open>var\<close> or
  \<open>let\<close>), java (\<open>public class\<close> and \<open>public static void main\<close>), and \<open>text\<close>
  when none matches.
\<close>

theorem detect_language_lookup_order:
  "(map_of extension_map (snd (splitext (str_lower P filename))) = Some l \<longrightarrow>
      detect_language P filename code_content = l) \<and>
   (map_of extension_map (snd (splitext (str_lower P filename))) = None \<longrightarrow>
      detect_language P filename code_content =
        (if code_content = [] then ''text''
         else if str_contains ''def '' code_content \<and> str_contains ''import '' code_content
           then ''python''
         else if str_contains ''function '' code_content \<and>
                 (str_contains ''var '' code_content \<or> str_contains ''let '' code_content)
           then ''javascript''
         else if str_contains ''public class '' code_content \<and>
                 str_contains ''public static void main'' code_content
           then ''java''
         else ''text''))"
proof (intro conjI impI)
  assume m: "map_of extension_map (snd (splitext (str_lower P filename))) = Some l"
  then have "l \<noteq> ''text''" by (rule extension_map_never_text)
  with m show "detect_language P filename code_content = l"
    by (simp add: detect_language_def)
next
  assume "map_of extension_map (snd (splitext (str_lower P filename))) = None"
  then show "detect_language P filename code_content =
        (if code_content = [] then ''text''
         else if str_contains ''def '' code_content \<and> str_contains ''import '' code_content
           then ''python''
         else if str_contains ''function '' code_content \<and>
                 (str_contains ''var '' code_content \<or> str_contains ''let '' code_content)
           then ''javascript''
         else if str_contains ''public class '' code_content \<and>
                 str_contains ''public static void main'' code_content
           then ''java''
         else ''text'')"
    by (simp add: detect_language_def)
qed

theorem detect_language_lookup_order_witness:
  "map_of extension_map (snd (splitext (str_lower sample_platform ''sample.py''))) = Some ''python'' \<and>
   detect_language sample_platform ''sample.py'' [] = ''python'' \<and>
   map_of extension_map (snd (splitext (str_lower sample_platform ''sample.txt''))) = None \<and>
   detect_language sample_platform ''sample.txt'' (''def run():'' @ [CHR 0x0A] @ ''    import os'') = ''python''"
  using detect_language_lookup_order [of sample_platform "''sample.py''" "''python''" "[]"]
        detect_language_lookup_order
          [of sample_platform "''sample.txt''" "''python''"
              "''def run():'' @ [CHR 0x0A] @ ''    import os''"]
  by (simp add: sample_py_extension sample_txt_extension py_in_extension_map
        txt_not_in_extension_map)

section \<open>The calls of an operation\<close>

lemma snd_transmit:
  "sent (snd (transmit c w)) = sent w @ [c]" "script (snd (transmit c w)) = tl (script w)"
  by (simp_all add: transmit_def split: list.split)

lemma fst_transmit: "fst (transmit c w) = next_outcome w"
  by (simp add: transmit_def next_outcome_def split: list.split)

lemma sdk_request_no_retry:
  "\<not> should_retry (next_outcome w) \<Longrightarrow> sdk_request n c w = transmit c w"
  using fst_transmit [of c w] by (cases n; cases "transmit c w") simp_all

lemma sent_sdk_request:
  "\<exists>k\<le>n. sent (snd (sdk_request n c w)) = sent w @ replicate (Suc k) c"
proof (induction n arbitrary: w)
  case 0
  then show ?case by (simp add: snd_transmit)
next
  case (Suc n)
  obtain out w' where t: "transmit c w = (out, w')" by (cases "transmit c w")
  then have s: "sent w' = sent w @ [c]" using snd_transmit(1) [of c w] by simp
  show ?case
  proof (cases "should_retry out")
    case True
    from Suc.IH [of w'] obtain k where
      "k \<le> n" "sent (snd (sdk_request n c w')) = sent w' @ replicate (Suc k) c"
      by blast
    with t True s have "Suc k \<le> Suc n"
      "sent (snd (sdk_request (Suc n) c w)) = sent w @ replicate (Suc (Suc k)) c"
      by (simp_all add: replicate_app_Cons_same)
    then show ?thesis by blast
  next
    case False
    with t s have "sent (snd (sdk_request (Suc n) c w)) = sent w @ replicate (Suc 0) c"
      by simp
    then show ?thesis by blast
  qed
qed

lemma final_outcome_script:
  "script w = script w' \<Longrightarrow> final_outcome n w = final_outcome n w'"
  by (induction n arbitrary: w w') (simp_all add: next_outcome_def)

lemma fst_sdk_request: "fst (sdk_request n c w) = final_outcome n w"
proof (induction n arbitrary: w)
  case 0
  then show ?case by (simp add: fst_transmit)
next
  case (Suc n)
  obtain out w' where t: "transmit c w = (out, w')" by (cases "transmit c w")
  then have o: "out = next_outcome w" and s: "script w' = tl (script w)"
    using fst_transmit [of c w] snd_transmit(2) [of c w] by simp_all
  have "final_outcome n w' = final_outcome n (w\<lparr>script := tl (script w)\<rparr>)"
    by (rule final_outcome_script) (simp add: s)
  with Suc.IH [of w'] t o show ?case by simp
qed

lemma snd_sdk_call: "snd (sdk_call P n meth c w) = snd (sdk_request n c w)"
  by (simp add: sdk_call_def split: prod.split outcome.split)

lemma snd_requests_post: "snd (requests_post c w) = snd (transmit c w)"
  by (simp add: requests_post_def split: prod.split outcome.split)

lemma snd_loads_content: "snd (loads_content P r) = snd r"
  by (simp add: loads_content_def split: prod.split sum.split)

lemma snd_Perplexity_make_request:
  "\<exists>r. temperature r = Some (3 / 10) \<and>
     snd (PerplexityProvider_make_request P k m prompt sys w) = snd (transmit (Chat r) w)"
proof -
  let ?r = "no_chat\<lparr>target := ''https://api.perplexity.ai/chat/completions'',
                      bearer := k, model_id := m,
                      messages := [(''system'', sys), (''user'', prompt)],
                      temperature := Some (3 / 10),
                      stream := Some False\<rparr>"
  have "snd (PerplexityProvider_make_request P k m prompt sys w) = snd (requests_post (Chat ?r) w)"
    by (simp add: PerplexityProvider_make_request_def split: prod.split sum.split)
  then show ?thesis
    by (intro exI [of _ ?r]) (simp add: snd_requests_post)
qed

lemma snd_HTTP_make_request:
  "\<exists>r. temperature r = Some (3 / 10) \<and>
     snd (HTTPProvider_make_request P k m b h prompt sys w) = snd (transmit (Chat r) w)"
proof -
  let ?r = "no_chat\<lparr>target := b @ ''/chat/completions'',
                      bearer := k, model_id := m,
                      extra_headers := h,
                      messages := [(''system'', sys), (''user'', prompt)],
                      temperature := Some (3 / 10),
                      max_tokens := Some 4000,
                      timeout := Some 60\<rparr>"
  have "snd (HTTPProvider_make_request P k m b h prompt sys w) = snd (requests_post (Chat ?r) w)"
    by (simp add: HTTPProvider_make_request_def split: prod.split sum.split error.split)
  then show ?thesis
    by (intro exI [of _ ?r]) (simp add: snd_requests_post)
qed

lemmas method_defs =
  OpenAIProvider_analyze_code_quality_def OpenAIProvider_generate_test_cases_def
  OpenAIProvider_get_code_suggestions_def
  AnthropicProvider_analyze_code_quality_def AnthropicProvider_generate_test_cases_def
  AnthropicProvider_get_code_suggestions_def
  GeminiProvider_analyze_code_quality_def GeminiProvider_generate_test_cases_def
  GeminiProvider_get_code_suggestions_def
  PerplexityProvider_analyze_code_quality_def PerplexityProvider_generate_test_cases_def
  PerplexityProvider_get_code_suggestions_def
  XAIProvider_analyze_code_quality_def XAIProvider_generate_test_cases_def
  XAIProvider_get_code_suggestions_def
  HTTPProvider_analyze_code_quality_def HTTPProvider_generate_test_cases_def
  HTTPProvider_get_code_suggestions_def

lemma sdk_chats:
  "temperature r = t \<Longrightarrow>
   chats_sent t n w (snd (loads_content P (sdk_call P n meth (Chat r) w)))"
  using sent_sdk_request [of n "Chat r" w]
  unfolding chats_sent_def by (auto simp add: snd_loads_content snd_sdk_call)

lemma requests_chat:
  "\<exists>r. temperature r = t \<and> w' = snd (transmit (Chat r) w) \<Longrightarrow> chats_sent t 0 w w'"
  unfolding chats_sent_def by (auto simp add: snd_transmit)

lemma perform_sends_chats:
  "chats_sent
     (case a of
        AnthropicProvider k m \<Rightarrow> None
      | PerplexityProvider k m \<Rightarrow> Some (3 / 10)
      | HTTPProvider k m b h \<Rightarrow> Some (3 / 10)
      | _ \<Rightarrow> (if op = Tests then Some (4 / 10) else Some (3 / 10)))
     (client_retries a) w (snd (perform P a op code_content language w))"
proof (cases a)
  case (OpenAIProvider k m)
  then show ?thesis
    by (cases op) (simp_all add: method_defs, (rule sdk_chats, simp add: no_chat_def)+)
next
  case (AnthropicProvider k m)
  then show ?thesis
    by (cases op) (simp_all add: method_defs, (rule sdk_chats, simp add: no_chat_def)+)
next
  case (GeminiProvider k m)
  then show ?thesis
    by (cases op) (simp_all add: method_defs, (rule sdk_chats, simp add: no_chat_def)+)
next
  case (PerplexityProvider k m)
  then show ?thesis
    by (cases op)
       (simp_all add: method_defs, (rule requests_chat, rule snd_Perplexity_make_request)+)
next
  case (XAIProvider k m)
  then show ?thesis
    by (cases op) (simp_all add: method_defs, (rule sdk_chats, simp add: no_chat_def)+)
next
  case (HTTPProvider k m b h)
  then show ?thesis
    by (cases op)
       (simp_all add: method_defs, (rule requests_chat, rule snd_HTTP_make_request)+)
qed

lemma requested_temperature_chats_sent:
  "chats_sent t n w w' \<Longrightarrow> requested_temperature w' = t"
proof -
  assume "chats_sent t n w w'"
  then obtain r k where "temperature r = t" "sent w' = sent w @ replicate (Suc k) (Chat r)"
    unfolding chats_sent_def by blast
  then have "temperature r = t" "rev (sent w') = replicate (Suc k) (Chat r) @ rev (sent w)"
    by (simp_all only: rev_append rev_replicate)
  then show ?thesis
    by (simp add: requested_temperature_def)
qed

section \<open>Temperatures\<close>

text \<open>
  C2, as the code has it. The temperature of the request an operation sends depends
  on the adapter: the OpenAI, Gemini and xAI adapters ask for 0.3 for quality analysis
  and suggestions and 0.4 for test generation; the Perplexity and generic HTTP adapters
  build every request in \<^verbatim>\<open>_make_request\<close> and ask for 0.3 for all three operations; the
  Anthropic adapter passes no temperature.
\<close>

theorem requested_temperatures:
  "requested_temperature (snd (perform P a op code_content language w)) =
     (case a of
        AnthropicProvider k m \<Rightarrow> None
      | PerplexityProvider k m \<Rightarrow> Some (3 / 10)
      | HTTPProvider k m b h \<Rightarrow> Some (3 / 10)
      | _ \<Rightarrow> (if op = Tests then Some (4 / 10) else Some (3 / 10)))"
  using perform_sends_chats [where a = a and op = op and P = P and w = w]
  by (rule requested_temperature_chats_sent)

text \<open>
  The claim as stated fails: test generation through the Perplexity adapter asks for
  0.3, not 0.4, and quality analysis through the Anthropic adapter asks for no
  temperature.
\<close>

theorem test_generation_temperature_counterexample:
  "requested_temperature
     (snd (generate_test_cases sample_platform
             (PerplexityProvider ''pplx-key'' ''mistral-7b-instruct'')
             ''x = 1'' ''python'' (answering [])))
     = Some (3 / 10) \<and>
   requested_temperature
     (snd (generate_test_cases sample_platform
             (PerplexityProvider ''pplx-key'' ''mistral-7b-instruct'')
             ''x = 1'' ''python'' (answering [])))
     \<noteq> Some (4 / 10) \<and>
   requested_temperature
     (snd (analyze_code_quality sample_platform (AnthropicProvider ''sk-ant'' ''claude-2.1'')
             ''x = 1'' ''python'' (answering [])))
     = None"
  by (simp add: method_defs PerplexityProvider_make_request_def requests_post_def sdk_call_def
        loads_content_def transmit_def answering_def requested_temperature_def no_chat_def
        DEFAULT_MAX_RETRIES_def numeral_2_eq_2)

section \<open>Decoding the reply\<close>

lemma sdk_delivered:
  assumes "script w = Reply status body # rest" "200 \<le> status" "status < 300"
    and "sdk_parse P meth body = Some txt"
  shows "fst (loads_content P (sdk_call P n meth c w)) = loads P txt"
proof -
  from assms(1-3) have "\<not> should_retry (next_outcome w)"
    by (simp add: next_outcome_def)
  then have "sdk_request n c w = transmit c w"
    by (rule sdk_request_no_retry)
  with assms show ?thesis
    by (simp add: loads_content_def sdk_call_def transmit_def)
qed

lemma Perplexity_delivered:
  assumes "script w = Reply 200 body # rest" "enveloped P body txt"
  shows "fst (PerplexityProvider_make_request P k m prompt sys w) = loads P txt"
  using assms
  by (simp add: PerplexityProvider_make_request_def requests_post_def transmit_def
        response_json_def enveloped_def split: option.splits)

lemma HTTP_delivered:
  assumes "script w = Reply 200 body # rest" "enveloped P body txt"
  shows "fst (HTTPProvider_make_request P k m b h prompt sys w) =
           (case json_loads P txt of
              None \<Rightarrow> Inr (JObj [(''error'', JStr ''Invalid JSON response''), (''content'', JStr txt)])
            | Some j \<Rightarrow> Inr j)"
  using assms
  by (simp add: HTTPProvider_make_request_def requests_post_def transmit_def
        response_json_def enveloped_def loads_def split: option.splits)

text \<open>
  Below the content text lies the HTTP body, which the two \<^verbatim>\<open>requests\<close> adapters decode
  with \<^verbatim>\<open>response.json()\<close> outside any \<^verbatim>\<open>try\<close>: a 200 reply whose body is not JSON makes
  both fail with the decode error of \<^verbatim>\<open>requests\<close>.
\<close>

lemma body_not_json:
  assumes "script w = Reply 200 body # rest" "json_loads P body = None"
  shows "fst (PerplexityProvider_make_request P k m prompt sys w) = Inl (RequestsJSONDecodeError body)"
    and "fst (HTTPProvider_make_request P k m b h prompt sys w) = Inl (RequestsJSONDecodeError body)"
  using assms
  by (simp_all add: PerplexityProvider_make_request_def HTTPProvider_make_request_def
        requests_post_def transmit_def response_json_def)

lemma perform_delivered:
  assumes "delivers P a w txt"
  shows "fst (perform P a op code_content language w) =
           (case json_loads P txt of
              Some j \<Rightarrow> Inr j
            | None \<Rightarrow>
                (case a of
                   HTTPProvider k m b h \<Rightarrow>
                     Inr (JObj [(''error'', JStr ''Invalid JSON response''), (''content'', JStr txt)])
                 | _ \<Rightarrow> Inl (JSONDecodeError txt)))"
proof -
  from assms obtain status body rest where s: "script w = Reply status body # rest"
    by (auto simp: delivers_def split: list.splits outcome.splits)
  show ?thesis
  proof (cases "uses_requests a")
    case True
    with assms s have ok: "status = 200" "enveloped P body txt"
      by (simp_all add: delivers_def)
    from True show ?thesis
    proof (cases a)
      case (PerplexityProvider k m)
      with s ok show ?thesis
        by (cases op) (simp_all add: method_defs Perplexity_delivered loads_def split: option.split)
    next
      case (HTTPProvider k m b h)
      with s ok show ?thesis
        by (cases op) (simp_all add: method_defs HTTP_delivered split: option.split)
    qed simp_all
  next
    case False
    with assms s have ok: "200 \<le> status" "status < 300"
      "sdk_parse P (client_method a) body = Some txt"
      by (simp_all add: delivers_def)
    from False show ?thesis
    proof (cases a)
      case (OpenAIProvider k m)
      with s ok show ?thesis
        by (cases op) (simp_all add: method_defs sdk_delivered loads_def split: option.split)
    next
      case (AnthropicProvider k m)
      with s ok show ?thesis
        by (cases op) (simp_all add: method_defs sdk_delivered loads_def split: option.split)
    next
      case (GeminiProvider k m)
      with s ok show ?thesis
        by (cases op) (simp_all add: method_defs sdk_delivered loads_def split: option.split)
    next
      case (XAIProvider k m)
      with s ok show ?thesis
        by (cases op) (simp_all add: method_defs sdk_delivered loads_def split: option.split)
    qed simp_all
  qed
qed

text \<open>
  C3. When the reply came through and its content text is not JSON, every operation of
  every adapter but the generic HTTP one fails with the decoder's
  \<^verbatim>\<open>json.JSONDecodeError\<close>, the malformed-response error of this code, which carries
  the raw text as its \<^verbatim>\<open>doc\<close>; the generic HTTP adapter returns the dictionary
  \<^verbatim>\<open>{"error": "Invalid JSON response", "content": <raw text>}\<close> instead.
\<close>

theorem not_json_reply:
  assumes "delivers P a w txt" and "json_loads P txt = None"
  shows "fst (perform P a op code_content language w) =
           (case a of
              HTTPProvider k m b h \<Rightarrow>
                Inr (JObj [(''error'', JStr ''Invalid JSON response''), (''content'', JStr txt)])
            | _ \<Rightarrow> Inl (JSONDecodeError txt))"
  using perform_delivered [OF assms(1), of op code_content language] assms(2)
  by simp

lemma sample_envelope_enveloped: "enveloped sample_platform sample_envelope_text ''not json''"
  by (simp add: enveloped_def sample_platform_def sample_json_loads_def sample_envelope_text_def
        sample_report_text_def sample_keys_text_def sample_envelope_def choices_content_def)

lemma not_json_is_not_json: "json_loads sample_platform ''not json'' = None"
  by (simp add: sample_platform_def sample_json_loads_def sample_envelope_text_def
        sample_report_text_def sample_keys_text_def)

theorem not_json_reply_witness:
  "delivers sample_platform (HTTPProvider ''key'' ''mistral-small-latest'' ''https://api.mistral.ai/v1'' [])
     (answering [Reply 200 sample_envelope_text]) ''not json'' \<and>
   delivers sample_platform (AnthropicProvider ''key'' ''claude-2.1'')
     (answering [Reply 200 (message_body ''not json'')]) ''not json'' \<and>
   json_loads sample_platform ''not json'' = None \<and>
   fst (perform sample_platform
          (HTTPProvider ''key'' ''mistral-small-latest'' ''https://api.mistral.ai/v1'' []) Tests
          ''x = 1'' ''python'' (answering [Reply 200 sample_envelope_text])) =
     Inr (JObj [(''error'', JStr ''Invalid JSON response''), (''content'', JStr ''not json'')]) \<and>
   fst (perform sample_platform (AnthropicProvider ''key'' ''claude-2.1'') Quality
          ''x = 1'' ''python'' (answering [Reply 200 (message_body ''not json'')])) =
     Inl (JSONDecodeError ''not json'')"
proof -
  have d1: "delivers sample_platform
              (HTTPProvider ''key'' ''mistral-small-latest'' ''https://api.mistral.ai/v1'' [])
              (answering [Reply 200 sample_envelope_text]) ''not json''"
    by (simp add: delivers_def answering_def sample_envelope_enveloped)
  have d2: "delivers sample_platform (AnthropicProvider ''key'' ''claude-2.1'')
              (answering [Reply 200 (message_body ''not json'')]) ''not json''"
    by (simp add: delivers_def answering_def sample_platform_def sample_sdk_parse_def
          sample_bodies_def)
  show ?thesis
    using not_json_reply [OF d1 not_json_is_not_json, of Tests "''x = 1''" "''python''"]
          not_json_reply [OF d2 not_json_is_not_json, of Quality "''x = 1''" "''python''"]
          d1 d2 not_json_is_not_json
    by simp
qed

text \<open>
  C1, as the code has it. \<^verbatim>\<open>analyze_code_quality\<close> of every adapter returns the document
  decoded from the reply content as it is, without a check of any range, and
  \<^verbatim>\<open>analyze_file\<close> keeps the \<^verbatim>\<open>quality_score\<close> entry of that document as the score.
\<close>

theorem quality_report_returned_as_decoded:
  assumes "delivers P a w txt" and "json_loads P txt = Some report"
  shows "fst (analyze_code_quality P a code_content language w) = Inr report \<and>
         (\<forall>kvs score. report = JObj kvs \<and> map_of kvs ''quality_score'' = Some score \<longrightarrow>
            analyze_file_quality_score report = Inr score)"
  using perform_delivered [OF assms(1), of Quality code_content language] assms(2)
  by (simp add: analyze_file_quality_score_def)

lemma sample_report_decodes: "json_loads sample_platform sample_report_text = Some sample_report"
  by (simp add: sample_platform_def sample_json_loads_def)

lemma sample_report_bodies:
  "sdk_parse sample_platform generate_content (generate_content_body sample_report_text) =
     Some sample_report_text"
  "sdk_parse sample_platform chat_completions_create (chat_completion_body sample_report_text) =
     Some sample_report_text"
  unfolding sample_platform_def by code_simp+

theorem quality_report_returned_as_decoded_witness:
  "delivers sample_platform (GeminiProvider ''key'' ''gemini-pro'')
     (answering [Reply 200 (generate_content_body sample_report_text)]) sample_report_text \<and>
   json_loads sample_platform sample_report_text = Some sample_report \<and>
   fst (analyze_code_quality sample_platform (GeminiProvider ''key'' ''gemini-pro'')
          ''x = 1'' ''python'' (answering [Reply 200 (generate_content_body sample_report_text)])) =
     Inr sample_report \<and>
   analyze_file_quality_score sample_report = Inr (JNum 150)"
proof -
  have d: "delivers sample_platform (GeminiProvider ''key'' ''gemini-pro'')
             (answering [Reply 200 (generate_content_body sample_report_text)]) sample_report_text"
    by (simp add: delivers_def answering_def sample_report_bodies)
  have q: "sample_report = JObj [(''quality_score'', JNum 150),
           (''metrics'', JObj [(''maintainability'', JNum 50), (''readability'', JNum 50),
                               (''security'', JNum (- 5))])] \<and>
           map_of [(''quality_score'', JNum 150),
           (''metrics'', JObj [(''maintainability'', JNum 50), (''readability'', JNum 50),
                               (''security'', JNum (- 5))])] ''quality_score'' = Some (JNum 150)"
    by (simp add: sample_report_def)
  show ?thesis
    using quality_report_returned_as_decoded [OF d sample_report_decodes, of "''x = 1''" "''python''"]
          d sample_report_decodes q
    by blast
qed

text \<open>
  The claim as stated fails: a reply with \<^verbatim>\<open>quality_score\<close> 150 and \<^verbatim>\<open>security\<close> -5
  is decoded and returned by the OpenAI adapter, and 150 is the score the route keeps.
\<close>

theorem out_of_range_report_counterexample:
  "fst (analyze_code_quality sample_platform (OpenAIProvider ''sk-key'' ''gpt-4o'')
          ''x = 1'' ''python'' (answering [Reply 200 (chat_completion_body sample_report_text)])) =
     Inr sample_report \<and>
   \<not> quality_report_in_range sample_report \<and>
   analyze_file_quality_score sample_report = Inr (JNum 150)"
  by (simp add: method_defs loads_content_def sdk_call_def transmit_def answering_def loads_def
        sample_report_decodes sample_report_bodies quality_report_in_range_def in_0_100_def
        sample_report_def analyze_file_quality_score_def DEFAULT_MAX_RETRIES_def numeral_2_eq_2)

section \<open>Transport failures\<close>














section \<open>The factory and the catalog\<close>

lemma catalog_identifiers:
  "map provider_id AI_PROVIDERS =
     [''openai'', ''anthropic'', ''gemini'', ''xai'', ''perplexity'', ''cohere'', ''mistral'',
      ''huggingface'', ''together'']"
  by (simp add: AI_PROVIDERS_def)

lemma in_catalog_iff:
  "in_catalog n \<longleftrightarrow>
     n = ''openai'' \<or> n = ''anthropic'' \<or> n = ''gemini'' \<or> n = ''xai'' \<or> n = ''perplexity'' \<or>
     n = ''cohere'' \<or> n = ''mistral'' \<or> n = ''huggingface'' \<or> n = ''together''"
  unfolding in_catalog_def catalog_identifiers by simp

lemma requirements_met_SDK:
  "requirements_met P ''openai'' = OpenAI_imported P"
  "requirements_met P ''xai'' = OpenAI_imported P"
  "requirements_met P ''anthropic'' = anthropic_imported P"
  "requirements_met P ''gemini'' = genai_imported P"
  by (simp_all add: requirements_met_def AI_PROVIDERS_def package_importable_def)

lemma create_in_catalog:
  assumes "in_catalog n" "requirements_met P n" "credential_taken P n key"
  shows "\<exists>a. fst (create_ai_provider P n key model w) = Inr a"
  using assms unfolding in_catalog_iff
  by (elim disjE)
     (simp_all add: create_ai_provider_def requirements_met_SDK credential_taken_def
        OpenAIProvider_init_def AnthropicProvider_init_def GeminiProvider_init_def
        XAIProvider_init_def PerplexityProvider_init_def HTTPProvider_init_def
        OpenAI_client_def Anthropic_client_def genai_Client_def)

lemma create_not_in_catalog:
  assumes "\<not> in_catalog n"
  shows "fst (create_ai_provider P n key model w) = Inl (ValueError (''Unsupported AI provider: '' @ n))"
  using assms unfolding in_catalog_iff by (simp add: create_ai_provider_def)

lemma create_sends_nothing: "snd (create_ai_provider P n key model w) = w"
  by (simp add: create_ai_provider_def)

text \<open>
  C5, as the code has it. The catalog lists nine backends. \<^verbatim>\<open>create_ai_provider\<close> sends
  nothing. For an identifier of the catalog whose required client package was imported
  (the \<^verbatim>\<open>requires\<close> entry of its descriptor) and a credential that the constructor of
  its client takes (the clients of \<^verbatim>\<open>openai\<close> and \<^verbatim>\<open>google-genai\<close> refuse some, the
  other backends take any) it returns an adapter, and every adapter
  has the three operations \<open>analyze_code_quality\<close>, \<open>generate_test_cases\<close> and
  \<open>get_code_suggestions\<close>. For an identifier that is not in the catalog it fails with
  \<^verbatim>\<open>ValueError("Unsupported AI provider: ...")\<close>, the unsupported-provider error of this
  code.
\<close>

theorem create_ai_provider_on_catalog:
  "length (map provider_id AI_PROVIDERS) = 9 \<and>
   snd (create_ai_provider P provider_name api_key model w) = w \<and>
   (in_catalog provider_name \<and> requirements_met P provider_name \<and>
    credential_taken P provider_name api_key \<longrightarrow>
      (\<exists>a. fst (create_ai_provider P provider_name api_key model w) = Inr a)) \<and>
   (\<not> in_catalog provider_name \<longrightarrow>
      fst (create_ai_provider P provider_name api_key model w) =
        Inl (ValueError (''Unsupported AI provider: '' @ provider_name)))"
  using create_in_catalog [of provider_name P api_key model w]
        create_not_in_catalog [of provider_name P api_key model w]
        create_sends_nothing [of P provider_name api_key model w]
  by (simp add: catalog_identifiers)

theorem create_ai_provider_on_catalog_witness:
  "in_catalog ''mistral'' \<and> requirements_met sample_platform ''mistral'' \<and>
   credential_taken sample_platform ''mistral'' ''key'' \<and>
   fst (create_ai_provider sample_platform ''mistral'' ''key'' ''mistral-small-latest'' (answering [])) =
     Inr (HTTPProvider ''key'' ''mistral-small-latest'' ''https://api.mistral.ai/v1'' []) \<and>
   in_catalog ''openai'' \<and> requirements_met sample_platform ''openai'' \<and>
   credential_taken sample_platform ''openai'' ''sk-key'' \<and>
   fst (create_ai_provider sample_platform ''openai'' ''sk-key'' ''gpt-4o'' (answering [])) =
     Inr (OpenAIProvider ''sk-key'' ''gpt-4o'') \<and>
   \<not> in_catalog ''not-a-real-backend'' \<and>
   fst (create_ai_provider sample_platform ''not-a-real-backend'' ''key'' ''m'' (answering [])) =
     Inl (ValueError ''Unsupported AI provider: not-a-real-backend'')"
  using create_ai_provider_on_catalog
          [of sample_platform "''mistral''" "''key''" "''mistral-small-latest''" "answering []"]
        create_ai_provider_on_catalog
          [of sample_platform "''openai''" "''sk-key''" "''gpt-4o''" "answering []"]
        create_ai_provider_on_catalog
          [of sample_platform "''not-a-real-backend''" "''key''" "''m''" "answering []"]
  by (simp add: in_catalog_iff requirements_met_SDK requirements_met_def AI_PROVIDERS_def
        package_importable_def sample_platform_def create_ai_provider_def HTTPProvider_init_def
        OpenAIProvider_init_def OpenAI_client_def credential_taken_def)

text \<open>
  The claim as stated fails where the \<^verbatim>\<open>openai\<close> package could not be imported: the
  module binds \<^verbatim>\<open>OpenAI\<close> to \<^verbatim>\<open>None\<close>, and constructing the adapter of the catalog
  identifier \<open>openai\<close> raises \<^verbatim>\<open>TypeError\<close>. It fails as well for a credential that
  the constructor of the client refuses, as the one of \<^verbatim>\<open>google-genai\<close> does the empty
  credential.
\<close>

theorem create_ai_provider_without_sdk_counterexample:
  "in_catalog ''openai'' \<and>
   fst (create_ai_provider (sample_platform\<lparr>OpenAI_imported := False\<rparr>) ''openai'' ''sk-key''
          ''gpt-4o'' (answering [])) = Inl TypeError \<and>
   in_catalog ''gemini'' \<and>
   fst (create_ai_provider sample_platform ''gemini'' [] ''gemini-pro'' (answering [])) =
     Inl GenaiValueError"
  by (simp add: in_catalog_iff create_ai_provider_def OpenAIProvider_init_def OpenAI_client_def
        GeminiProvider_init_def genai_Client_def sample_platform_def)

section \<open>Credential validation never raises\<close>

lemma isl_return_True:
  "isl (fst (case r of (Inl e, w') \<Rightarrow> (Inl e, w') | (Inr u, w') \<Rightarrow> (Inr True, w'))) = isl (fst r)"
  by (simp split: prod.split sum.split)

lemma fst_sdk_call:
  "fst (sdk_call P n meth c w) =
     (case final_outcome n w of
        Reply status body \<Rightarrow>
          if 200 \<le> status \<and> status < 300
          then (case sdk_parse P meth body of
                  None \<Rightarrow> Inl APIResponseError
                | Some content \<Rightarrow> Inr content)
          else Inl (APIStatusError status body)
      | ConnectionFailed \<Rightarrow> Inl APIConnectionError
      | TimedOut \<Rightarrow> Inl APITimeoutError)"
  using fst_sdk_request [of n c w]
  by (cases "sdk_request n c w") (auto simp add: sdk_call_def split: outcome.split)

lemma sdk_probe_failed:
  "transport_failure (final_outcome n w) \<Longrightarrow> isl (fst (sdk_probe P client n meth c w))"
  using fst_sdk_call [of P n meth c w]
  by (cases "sdk_call P n meth c w"; cases "final_outcome n w")
     (auto simp add: sdk_probe_def split: sum.splits)

lemma sdk_probe_unparsed:
  "final_outcome n w = Reply status body \<Longrightarrow> 200 \<le> status \<Longrightarrow> status < 300 \<Longrightarrow>
   sdk_parse P meth body = None \<Longrightarrow> isl (fst (sdk_probe P client n meth c w))"
  using fst_sdk_call [of P n meth c w]
  by (cases "sdk_call P n meth c w") (auto simp add: sdk_probe_def split: sum.splits)

lemma requests_probe_failed:
  "transport_failure (final_outcome 0 w) \<Longrightarrow> isl (fst (requests_probe url key data w))"
  by (cases "next_outcome w")
     (auto simp add: requests_probe_def requests_post_def raise_for_status_def transmit_def
        next_outcome_def split: sum.splits list.splits prod.splits outcome.splits)

lemma validate_try_failed:
  assumes "transport_failure (final_outcome (probe_retries provider) w)" "in_catalog provider"
  shows "isl (fst (validate_api_key_try P provider api_key w))"
  using assms(2) assms(1) unfolding in_catalog_iff
  by (elim disjE)
     (simp_all add: validate_api_key_try_def isl_return_True probe_retries_def
        sdk_probe_failed requests_probe_failed)

lemma validate_try_unparsed:
  assumes "probe_method provider = Some meth"
    and "final_outcome (probe_retries provider) w = Reply status body"
    and "200 \<le> status" "status < 300" "sdk_parse P meth body = None"
  shows "isl (fst (validate_api_key_try P provider api_key w))"
proof -
  from assms(1) consider "provider = ''openai''" "meth = models_list"
    | "provider = ''xai''" "meth = models_list"
    | "provider = ''anthropic''" "meth = messages_create"
    | "provider = ''gemini''" "meth = generate_content"
    by (auto simp add: probe_method_def split: if_splits)
  then show ?thesis
    using assms(2-5)
    by cases
       (simp_all add: validate_api_key_try_def isl_return_True probe_retries_def
          sdk_probe_unparsed)
qed

lemma validate_not_in_catalog:
  assumes "\<not> in_catalog provider"
  shows "validate_api_key P provider api_key w = (Inr False, w)"
  using assms unfolding in_catalog_iff
  by (simp add: validate_api_key_def validate_api_key_try_def)

lemma validate_returns: "\<exists>b. fst (validate_api_key P provider api_key w) = Inr b"
  by (cases "validate_api_key_try P provider api_key w")
     (auto simp add: validate_api_key_def split: sum.split)

lemma validate_catches:
  "isl (fst (validate_api_key_try P provider api_key w)) \<Longrightarrow>
   fst (validate_api_key P provider api_key w) = Inr False"
  by (cases "validate_api_key_try P provider api_key w")
     (auto simp add: validate_api_key_def split: sum.split)

text \<open>
  C6. For every backend identifier and every credential, \<^verbatim>\<open>validate_api_key\<close> returns a
  boolean and does not raise. Whatever fails inside its \<^verbatim>\<open>try\<close> block is caught and
  becomes \<open>False\<close>. In particular a probe call that ends on a transport failure (no
  reply, or a 4xx or 5xx status, to the last attempt of the client) gives \<open>False\<close>, and
  so does a probe call whose reply of success status the client cannot parse. An
  identifier that is not in the catalog gives \<open>False\<close> without a call.
\<close>

theorem validate_api_key_never_raises:
  "(\<exists>b. fst (validate_api_key P provider api_key w) = Inr b) \<and>
   (isl (fst (validate_api_key_try P provider api_key w)) \<longrightarrow>
      fst (validate_api_key P provider api_key w) = Inr False) \<and>
   (transport_failure (final_outcome (probe_retries provider) w) \<longrightarrow>
      fst (validate_api_key P provider api_key w) = Inr False) \<and>
   (probe_method provider = Some meth \<and>
    final_outcome (probe_retries provider) w = Reply status body \<and>
    200 \<le> status \<and> status < 300 \<and> sdk_parse P meth body = None \<longrightarrow>
      fst (validate_api_key P provider api_key w) = Inr False) \<and>
   (\<not> in_catalog provider \<longrightarrow> validate_api_key P provider api_key w = (Inr False, w))"
proof (intro conjI impI)
  show "\<exists>b. fst (validate_api_key P provider api_key w) = Inr b"
    by (rule validate_returns)
  show "fst (validate_api_key P provider api_key w) = Inr False"
    if "isl (fst (validate_api_key_try P provider api_key w))"
    using that by (rule validate_catches)
  show "fst (validate_api_key P provider api_key w) = Inr False"
    if f: "transport_failure (final_outcome (probe_retries provider) w)"
  proof (cases "in_catalog provider")
    case True
    with f show ?thesis by (intro validate_catches validate_try_failed)
  next
    case False
    then show ?thesis by (simp add: validate_not_in_catalog)
  qed
  show "fst (validate_api_key P provider api_key w) = Inr False"
    if "probe_method provider = Some meth \<and>
        final_outcome (probe_retries provider) w = Reply status body \<and>
        200 \<le> status \<and> status < 300 \<and> sdk_parse P meth body = None"
    using that by (intro validate_catches validate_try_unparsed [of provider meth w status body]) simp_all
  show "validate_api_key P provider api_key w = (Inr False, w)" if "\<not> in_catalog provider"
    using that by (rule validate_not_in_catalog)
qed

theorem validate_api_key_never_raises_witness:
  "transport_failure (final_outcome (probe_retries ''openai'')
     (answering [Reply 500 ''busy'', ConnectionFailed, Reply 401 ''Unauthorized''])) \<and>
   isl (fst (validate_api_key_try sample_platform ''openai'' ''obviously-invalid-key''
               (answering [Reply 500 ''busy'', ConnectionFailed, Reply 401 ''Unauthorized'']))) \<and>
   fst (validate_api_key sample_platform ''openai'' ''obviously-invalid-key''
          (answering [Reply 500 ''busy'', ConnectionFailed, Reply 401 ''Unauthorized''])) = Inr False \<and>
   transport_failure (final_outcome (probe_retries ''together'') (answering [TimedOut])) \<and>
   fst (validate_api_key sample_platform ''together'' ''obviously-invalid-key''
          (answering [TimedOut])) = Inr False \<and>
   probe_method ''xai'' = Some models_list \<and>
   final_outcome (probe_retries ''xai'') (answering [Reply 200 ''ok'']) = Reply 200 ''ok'' \<and>
   sdk_parse sample_platform models_list ''ok'' = None \<and>
   fst (validate_api_key sample_platform ''xai'' ''key'' (answering [Reply 200 ''ok''])) = Inr False \<and>
   \<not> in_catalog ''not-a-real-backend'' \<and>
   validate_api_key sample_platform ''not-a-real-backend'' ''key'' (answering [Reply 200 ''ok'']) =
     (Inr False, answering [Reply 200 ''ok''])"
proof -
  have a: "transport_failure (final_outcome (probe_retries ''openai'')
             (answering [Reply 500 ''busy'', ConnectionFailed, Reply 401 ''Unauthorized'']))"
    and b: "transport_failure (final_outcome (probe_retries ''together'') (answering [TimedOut]))"
    and e: "final_outcome (probe_retries ''xai'') (answering [Reply 200 ''ok'']) = Reply 200 ''ok''"
    by (simp_all add: next_outcome_def answering_def probe_retries_def DEFAULT_MAX_RETRIES_def
          numeral_2_eq_2)
  have c: "\<not> in_catalog ''not-a-real-backend''"
    by (simp add: in_catalog_iff)
  have d: "isl (fst (validate_api_key_try sample_platform ''openai'' ''obviously-invalid-key''
               (answering [Reply 500 ''busy'', ConnectionFailed, Reply 401 ''Unauthorized''])))"
    using a by (intro validate_try_failed) (simp_all add: in_catalog_iff)
  have f: "probe_method ''xai'' = Some models_list"
    by (simp add: probe_method_def)
  have g: "sdk_parse sample_platform models_list ''ok'' = None"
    unfolding sample_platform_def by code_simp
  show ?thesis
    using validate_api_key_never_raises
            [of sample_platform "''openai''" "''obviously-invalid-key''"
                "answering [Reply 500 ''busy'', ConnectionFailed, Reply 401 ''Unauthorized'']"
                models_list 0 "[]"]
          validate_api_key_never_raises
            [of sample_platform "''together''" "''obviously-invalid-key''" "answering [TimedOut]"
                models_list 0 "[]"]
          validate_api_key_never_raises
            [of sample_platform "''xai''" "''key''" "answering [Reply 200 ''ok'']"
                models_list 200 "''ok''"]
          validate_api_key_never_raises
            [of sample_platform "''not-a-real-backend''" "''key''" "answering [Reply 200 ''ok'']"
                models_list 0 "[]"]
          a b c d e f g
    by simp
qed

section \<open>The vault\<close>

lemma decrypt_returns: "\<exists>keys. fst (decrypt_api_keys P F encrypted_keys n) = Inr keys"
  by (cases "decrypt_api_keys_try P F (the encrypted_keys) n")
     (auto simp add: decrypt_api_keys_def split: option.split sum.split)

lemma decrypt_catches:
  "isl (fst (decrypt_api_keys_try P F blob n)) \<Longrightarrow>
   fst (decrypt_api_keys P F (Some blob) n) = Inr (JObj [])"
  by (cases "decrypt_api_keys_try P F blob n")
     (auto simp add: decrypt_api_keys_def split: sum.split)

lemma decrypt_try_invalid_token:
  "fernet_decrypt F (fst (vault_key P F n)) blob = None \<Longrightarrow>
   isl (fst (decrypt_api_keys_try P F blob n))"
  by (cases "vault_key P F n")
     (simp add: decrypt_api_keys_try_def Fernet_def split: sum.split)

text \<open>
  C9. \<^verbatim>\<open>decrypt_api_keys\<close> returns a value for every blob and never raises. For an absent
  or empty blob, for a blob that Fernet does not open under the key in use, and for any
  other failure of its \<^verbatim>\<open>try\<close> block, the value is the empty mapping.
\<close>

theorem decrypt_api_keys_never_raises:
  "(\<exists>keys. fst (decrypt_api_keys P F encrypted_keys n) = Inr keys) \<and>
   (encrypted_keys = None \<or> encrypted_keys = Some [] \<longrightarrow>
      fst (decrypt_api_keys P F encrypted_keys n) = Inr (JObj [])) \<and>
   (encrypted_keys = Some blob \<and> fernet_decrypt F (fst (vault_key P F n)) blob = None \<longrightarrow>
      fst (decrypt_api_keys P F encrypted_keys n) = Inr (JObj [])) \<and>
   (encrypted_keys = Some blob \<and> isl (fst (decrypt_api_keys_try P F blob n)) \<longrightarrow>
      fst (decrypt_api_keys P F encrypted_keys n) = Inr (JObj []))"
proof (intro conjI impI)
  show "\<exists>keys. fst (decrypt_api_keys P F encrypted_keys n) = Inr keys"
    by (rule decrypt_returns)
  show "fst (decrypt_api_keys P F encrypted_keys n) = Inr (JObj [])"
    if "encrypted_keys = None \<or> encrypted_keys = Some []"
    using that by (auto simp add: decrypt_api_keys_def)
  show "fst (decrypt_api_keys P F encrypted_keys n) = Inr (JObj [])"
    if "encrypted_keys = Some blob \<and> fernet_decrypt F (fst (vault_key P F n)) blob = None"
    using that by (auto intro: decrypt_catches decrypt_try_invalid_token)
  show "fst (decrypt_api_keys P F encrypted_keys n) = Inr (JObj [])"
    if "encrypted_keys = Some blob \<and> isl (fst (decrypt_api_keys_try P F blob n))"
    using that by (auto intro: decrypt_catches)
qed

lemma sample_vault_key: "fst (vault_key sample_platform sample_fernet 0) = ''K0''"
  by (simp add: vault_key_def sample_platform_def sample_fernet_def str_nat.simps)

theorem decrypt_api_keys_never_raises_witness:
  "fernet_decrypt sample_fernet (fst (vault_key sample_platform sample_fernet 0)) ''garbage'' = None \<and>
   isl (fst (decrypt_api_keys_try sample_platform sample_fernet ''garbage'' 0)) \<and>
   fst (decrypt_api_keys sample_platform sample_fernet (Some ''garbage'') 0) = Inr (JObj []) \<and>
   fst (decrypt_api_keys sample_platform sample_fernet None 0) = Inr (JObj []) \<and>
   fst (decrypt_api_keys sample_platform sample_fernet (Some []) 0) = Inr (JObj [])"
proof -
  have a: "fernet_decrypt sample_fernet (fst (vault_key sample_platform sample_fernet 0)) ''garbage'' = None"
    by (simp add: sample_vault_key) (simp add: sample_fernet_def)
  have b: "isl (fst (decrypt_api_keys_try sample_platform sample_fernet ''garbage'' 0))"
    using a by (rule decrypt_try_invalid_token)
  show ?thesis
    using decrypt_api_keys_never_raises
            [of sample_platform sample_fernet "Some ''garbage''" 0 "''garbage''"]
          decrypt_api_keys_never_raises [of sample_platform sample_fernet None 0 "[]"]
          decrypt_api_keys_never_raises [of sample_platform sample_fernet "Some []" 0 "[]"]
          a b
    by simp
qed

text \<open>
  C8. With \<^verbatim>\<open>ENCRYPTION_KEY\<close> set to a key that Fernet accepts, decrypting what
  \<^verbatim>\<open>encrypt_api_keys\<close> returned for a non-empty mapping \<open>m\<close> of slot names to secret
  strings gives \<open>m\<close> back. The libraries are taken by their contracts: a Fernet token
  is not empty and opens under the key that made it, and \<^verbatim>\<open>json.loads\<close> inverts
  \<^verbatim>\<open>json.dumps\<close> at \<open>m\<close>.
\<close>

theorem vault_round_trip:
  assumes key: "environ P ''ENCRYPTION_KEY'' = Some k" "accepts_key F k"
    and m: "m = JObj (map (\<lambda>(slot, secret). (slot, JStr secret)) slots)" "slots \<noteq> []"
    and fernet: "\<forall>e p. fernet_decrypt F k (fernet_encrypt F k e p) = Some p"
    and json: "json_loads P (json_dumps P m) = Some m"
    and token: "\<forall>e p. fernet_encrypt F k e p \<noteq> []"
  shows "fst (store_then_load P F m n) = Inr m"
  using assms
  by (simp add: store_then_load_def encrypt_api_keys_def decrypt_api_keys_def
        decrypt_api_keys_try_def vault_key_def Fernet_def loads_def)

lemma sample_fernet_opens: "fernet_decrypt sample_fernet ''KK'' (fernet_encrypt sample_fernet ''KK'' e p) = Some p"
  by (simp add: sample_fernet_def)

lemma sample_fernet_token: "fernet_encrypt sample_fernet ''KK'' e p \<noteq> []"
  by (simp add: sample_fernet_def)

lemma sample_keys_round_trip:
  "json_loads (sample_platform\<lparr>environ := [''ENCRYPTION_KEY'' \<mapsto> ''KK'']\<rparr>)
     (json_dumps (sample_platform\<lparr>environ := [''ENCRYPTION_KEY'' \<mapsto> ''KK'']\<rparr>) sample_keys) =
   Some sample_keys"
  by (simp add: sample_platform_def sample_json_dumps_def sample_json_loads_def
        sample_keys_text_def sample_report_text_def sample_envelope_text_def)

theorem vault_round_trip_witness:
  "environ (sample_platform\<lparr>environ := [''ENCRYPTION_KEY'' \<mapsto> ''KK'']\<rparr>) ''ENCRYPTION_KEY'' = Some ''KK'' \<and>
   accepts_key sample_fernet ''KK'' \<and>
   sample_keys = JObj (map (\<lambda>(slot, secret). (slot, JStr secret)) [(''OPENAI_API_KEY'', ''sk-test'')]) \<and>
   fst (store_then_load (sample_platform\<lparr>environ := [''ENCRYPTION_KEY'' \<mapsto> ''KK'']\<rparr>)
          sample_fernet sample_keys 0) = Inr sample_keys"
proof -
  let ?P = "sample_platform\<lparr>environ := [''ENCRYPTION_KEY'' \<mapsto> ''KK'']\<rparr>"
  have key: "environ ?P ''ENCRYPTION_KEY'' = Some ''KK''" "accepts_key sample_fernet ''KK''"
    by (simp_all add: sample_fernet_def)
  have m: "sample_keys =
             JObj (map (\<lambda>(slot, secret). (slot, JStr secret)) [(''OPENAI_API_KEY'', ''sk-test'')])"
    "[(''OPENAI_API_KEY'', ''sk-test'')] \<noteq> []"
    by (simp_all add: sample_keys_def)
  have f: "\<forall>e p. fernet_decrypt sample_fernet ''KK'' (fernet_encrypt sample_fernet ''KK'' e p) = Some p"
    by (simp add: sample_fernet_opens)
  have t: "\<forall>e p. fernet_encrypt sample_fernet ''KK'' e p \<noteq> []"
    by (simp add: sample_fernet_token)
  show ?thesis
    using vault_round_trip [OF key m f sample_keys_round_trip t, of 0] key m(1)
    by simp
qed





end
